theory Spec2Isabelle
  imports Complex_Main "HOL-Library.Word" "HOL-Library.Log_Nat"
begin

section \<open>Double-precision values\<close>

text \<open>
  Every quantity of the device kernels is a \<^verbatim>\<open>cl_double\<close>. A value is modelled as a real
  number, one of the two infinities, or NaN. The special values follow IEEE 754 and the
  OpenCL C built-ins (a comparison with NaN is false, \<^verbatim>\<open>fmax\<close> and \<^verbatim>\<open>fmin\<close> drop a NaN
  argument, a non-zero value divided by zero is an infinity). Arithmetic on finite values is
  exact: rounding, overflow to infinity and the sign of zero are not modelled, so a theorem
  below speaks about the kernel's formulas in exact arithmetic.
\<close>

datatype dbl = Fin real | PInf | NInf | NaN

fun dneg :: "dbl \<Rightarrow> dbl" where
  "dneg (Fin a) = Fin (- a)"
| "dneg PInf = NInf"
| "dneg NInf = PInf"
| "dneg NaN = NaN"

fun dadd :: "dbl \<Rightarrow> dbl \<Rightarrow> dbl" where
  "dadd (Fin a) (Fin b) = Fin (a + b)"
| "dadd NaN y = NaN"
| "dadd x NaN = NaN"
| "dadd PInf NInf = NaN"
| "dadd NInf PInf = NaN"
| "dadd PInf y = PInf"
| "dadd x PInf = PInf"
| "dadd NInf y = NInf"
| "dadd x NInf = NInf"

definition dsub :: "dbl \<Rightarrow> dbl \<Rightarrow> dbl" where
  "dsub x y = dadd x (dneg y)"

fun dmul :: "dbl \<Rightarrow> dbl \<Rightarrow> dbl" where
  "dmul (Fin a) (Fin b) = Fin (a * b)"
| "dmul NaN y = NaN"
| "dmul x NaN = NaN"
| "dmul (Fin a) PInf = (if a = 0 then NaN else if 0 < a then PInf else NInf)"
| "dmul (Fin a) NInf = (if a = 0 then NaN else if 0 < a then NInf else PInf)"
| "dmul PInf (Fin b) = (if b = 0 then NaN else if 0 < b then PInf else NInf)"
| "dmul NInf (Fin b) = (if b = 0 then NaN else if 0 < b then NInf else PInf)"
| "dmul PInf PInf = PInf"
| "dmul PInf NInf = NInf"
| "dmul NInf PInf = NInf"
| "dmul NInf NInf = PInf"

fun ddiv :: "dbl \<Rightarrow> dbl \<Rightarrow> dbl" where
  "ddiv (Fin a) (Fin b) =
     (if b \<noteq> 0 then Fin (a / b) else if a = 0 then NaN else if 0 < a then PInf else NInf)"
| "ddiv NaN y = NaN"
| "ddiv x NaN = NaN"
| "ddiv (Fin a) PInf = Fin 0"
| "ddiv (Fin a) NInf = Fin 0"
| "ddiv PInf (Fin b) = (if 0 \<le> b then PInf else NInf)"
| "ddiv NInf (Fin b) = (if 0 \<le> b then NInf else PInf)"
| "ddiv PInf PInf = NaN"
| "ddiv PInf NInf = NaN"
| "ddiv NInf PInf = NaN"
| "ddiv NInf NInf = NaN"

fun dlt :: "dbl \<Rightarrow> dbl \<Rightarrow> bool" where
  "dlt (Fin a) (Fin b) = (a < b)"
| "dlt NaN y = False"
| "dlt x NaN = False"
| "dlt x NInf = False"
| "dlt PInf y = False"
| "dlt NInf y = True"
| "dlt (Fin a) PInf = True"

fun dle :: "dbl \<Rightarrow> dbl \<Rightarrow> bool" where
  "dle (Fin a) (Fin b) = (a \<le> b)"
| "dle NaN y = False"
| "dle x NaN = False"
| "dle NInf y = True"
| "dle x PInf = True"
| "dle PInf y = False"
| "dle (Fin a) NInf = False"

definition dgt :: "dbl \<Rightarrow> dbl \<Rightarrow> bool" where
  "dgt x y = dlt y x"

definition dge :: "dbl \<Rightarrow> dbl \<Rightarrow> bool" where
  "dge x y = dle y x"

definition deq :: "dbl \<Rightarrow> dbl \<Rightarrow> bool" where
  "deq x y = (x \<noteq> NaN \<and> x = y)"

text \<open>\<^verbatim>\<open>fmax\<close> and \<^verbatim>\<open>fmin\<close>: if one argument is NaN the other is returned.\<close>

definition dfmax :: "dbl \<Rightarrow> dbl \<Rightarrow> dbl" where
  "dfmax x y = (if x = NaN then y else if y = NaN then x else if dlt x y then y else x)"

definition dfmin :: "dbl \<Rightarrow> dbl \<Rightarrow> dbl" where
  "dfmin x y = (if x = NaN then y else if y = NaN then x else if dlt y x then y else x)"

text \<open>
  The common function \<^verbatim>\<open>max(x, y)\<close> of OpenCL C returns \<^verbatim>\<open>y\<close> if \<^verbatim>\<open>x < y\<close> and \<^verbatim>\<open>x\<close>
  otherwise; the standard leaves its result open for an infinite or NaN argument, where
  the model keeps the same formula.
\<close>

definition dmax :: "dbl \<Rightarrow> dbl \<Rightarrow> dbl" where
  "dmax x y = (if dlt x y then y else x)"

definition dmin :: "dbl \<Rightarrow> dbl \<Rightarrow> dbl" where
  "dmin x y = (if dlt y x then y else x)"

fun dfabs :: "dbl \<Rightarrow> dbl" where
  "dfabs (Fin a) = Fin \<bar>a\<bar>"
| "dfabs PInf = PInf"
| "dfabs NInf = PInf"
| "dfabs NaN = NaN"

fun dsqrt :: "dbl \<Rightarrow> dbl" where
  "dsqrt (Fin a) = (if a < 0 then NaN else Fin (sqrt a))"
| "dsqrt PInf = PInf"
| "dsqrt NInf = NaN"
| "dsqrt NaN = NaN"

text \<open>The value of a C comparison used as a number: 1 or 0.\<close>

definition dbool :: "bool \<Rightarrow> dbl" where
  "dbool c = Fin (if c then 1 else 0)"

section \<open>Build-time configuration\<close>

text \<open>
  The host compiles the device program with the domain and scheme settings as macros.
  Their definitions are not part of the kernels' source files, so the model takes them as
  the fields of a record. A macro is a numeric literal, hence a finite number.
\<close>

record build =
  VERY_SMALL :: real
  DOMAIN_COLS :: int
  DOMAIN_ROWS :: int
  DOMAIN_DELTAX :: real
  DOMAIN_DELTAY :: real
  DOMAIN_DELTAX_R :: real
  DOMAIN_DELTAY_R :: real
  COURANT_NUMBER :: real
  SCHEME_ENDTIME :: real
  TIMESTEP_WORKERS :: nat
  TIMESTEP_DYNAMIC :: bool
  TIMESTEP_FIXED :: "real option"
  FROUDE_LIMIT :: real
  FRICTION_IN_FLUX_KERNEL :: bool

text \<open>Constants of the universal header and of the timestep and boundary headers.\<close>

definition GRAVITY :: real where "GRAVITY = 9.80665"
definition GRAVITY_R :: real where "GRAVITY_R = 0.10197162129779282426"
definition GRAVITY2_R :: real where "GRAVITY2_R = 0.05098581064889641213"
definition PI :: real where "PI = 3.14159265359"

definition TIMESTEP_EARLY_LIMIT :: real where "TIMESTEP_EARLY_LIMIT = 0.1"
definition TIMESTEP_EARLY_LIMIT_DURATION :: real where "TIMESTEP_EARLY_LIMIT_DURATION = 60"
definition TIMESTEP_START_MINIMUM :: real where "TIMESTEP_START_MINIMUM = 1 / 10 ^ 10"
definition TIMESTEP_START_MINIMUM_DURATION :: real where "TIMESTEP_START_MINIMUM_DURATION = 1"
definition TIMESTEP_MINIMUM :: real where "TIMESTEP_MINIMUM = 1 / 10 ^ 10"
definition TIMESTEP_MAXIMUM :: real where "TIMESTEP_MAXIMUM = 15"
definition TIMESTEP_HYDROLOGICAL :: real where "TIMESTEP_HYDROLOGICAL = 0.25"

section \<open>The timestep controller\<close>

text \<open>The scalar block that \<^verbatim>\<open>tst_Advance_Normal\<close> reads and commits.\<close>

record timestate =
  dTime :: dbl
  dTimestep :: dbl
  dTimeHydrological :: dbl
  dTimeSync :: dbl
  dBatchTimesteps :: dbl
  uiBatchSuccessful :: "32 word"
  uiBatchSkipped :: "32 word"

text \<open>The loop over the reduction buffer: the maximum starts at 0.0.\<close>

definition maxSpeed :: "build \<Rightarrow> (nat \<Rightarrow> dbl) \<Rightarrow> dbl" where
  "maxSpeed b pReductionData =
     foldl (\<lambda>dMaxSpeed i. dfmax dMaxSpeed (pReductionData i)) (Fin 0) [0..<TIMESTEP_WORKERS b]"

text \<open>The \<^verbatim>\<open>TIMESTEP_DYNAMIC\<close> block: velocity to time, start minimum, Courant number.\<close>

definition dynamicTimestep :: "build \<Rightarrow> (nat \<Rightarrow> dbl) \<Rightarrow> dbl \<Rightarrow> dbl" where
  "dynamicTimestep b pReductionData dLclTime =
     (let dMaxSpeed = maxSpeed b pReductionData;
          dMinTime = ddiv (Fin (DOMAIN_DELTAX b)) dMaxSpeed;
          dMinTime' = (if dlt dLclTime (Fin TIMESTEP_START_MINIMUM_DURATION) \<and>
                          dlt dMinTime (Fin TIMESTEP_START_MINIMUM)
                       then Fin TIMESTEP_START_MINIMUM else dMinTime)
      in dmul (Fin (COURANT_NUMBER b)) dMinTime')"

text \<open>The two conditional blocks that choose the candidate timestep.\<close>

definition candidateTimestep :: "build \<Rightarrow> (nat \<Rightarrow> dbl) \<Rightarrow> dbl \<Rightarrow> dbl \<Rightarrow> dbl" where
  "candidateTimestep b pReductionData dLclTime dLclTimestep =
     (let dt1 = (if TIMESTEP_DYNAMIC b then dynamicTimestep b pReductionData dLclTime
                 else dLclTimestep)
      in case TIMESTEP_FIXED b of None \<Rightarrow> dt1 | Some f \<Rightarrow> Fin f)"

text \<open>Impose a minimum timestep.\<close>

definition imposeMinimum :: "dbl \<Rightarrow> dbl" where
  "imposeMinimum dLclTimestep =
     (if dgt dLclTimestep (Fin 0) \<and> dlt dLclTimestep (Fin TIMESTEP_MINIMUM)
      then Fin TIMESTEP_MINIMUM else dLclTimestep)"

text \<open>Do not exceed the sync time; a negative timestep suspends the simulation.\<close>

definition syncLimit :: "build \<Rightarrow> dbl \<Rightarrow> dbl \<Rightarrow> dbl \<Rightarrow> dbl" where
  "syncLimit b dLclTime dLclSyncTime dLclTimestep =
     (if dge (dadd dLclTime dLclTimestep) dLclSyncTime then
        (if dgt (dsub dLclSyncTime dLclTime) (Fin (VERY_SMALL b))
         then dsub dLclSyncTime dLclTime
         else if dle (dsub dLclSyncTime dLclTime) (Fin (VERY_SMALL b))
         then dneg dLclTimestep
         else dLclTimestep)
      else dLclTimestep)"

text \<open>The early limit, the end of the simulation and the maximum timestep.\<close>

definition capTimestep :: "build \<Rightarrow> dbl \<Rightarrow> dbl \<Rightarrow> dbl" where
  "capTimestep b dLclTime dLclTimestep =
     (let dt1 = (if dlt dLclTime (Fin TIMESTEP_EARLY_LIMIT_DURATION) \<and>
                    dgt dLclTimestep (Fin TIMESTEP_EARLY_LIMIT)
                 then Fin TIMESTEP_EARLY_LIMIT else dLclTimestep);
          dt2 = dfmin dt1 (dsub (Fin (SCHEME_ENDTIME b)) dLclTime)
      in dfmin dt2 (Fin TIMESTEP_MAXIMUM))"

text \<open>
  \<^verbatim>\<open>tst_Advance_Normal\<close>. The kernel has one work-item. Its cell and bed buffers are
  parameters it never reads, so they are left out.
\<close>

definition tst_Advance_Normal :: "build \<Rightarrow> (nat \<Rightarrow> dbl) \<Rightarrow> timestate \<Rightarrow> timestate" where
  "tst_Advance_Normal b pReductionData s =
     (let dLclTimestep = dfmax (Fin 0) (dTimestep s);
          dLclTime = dadd (dTime s) dLclTimestep;
          dLclBatchTimesteps = dadd (dBatchTimesteps s) dLclTimestep;
          uiLclBatchSuccessful =
            uiBatchSuccessful s + (if dgt dLclTimestep (Fin 0) then 1 else 0);
          uiLclBatchSkipped =
            uiBatchSkipped s + (if dle dLclTimestep (Fin 0) then 1 else 0);
          dLclTimeHydrological =
            dadd (dmul (dTimeHydrological s)
                       (dbool (dle (dTimeHydrological s) (Fin TIMESTEP_HYDROLOGICAL))))
                 dLclTimestep;
          dt1 = candidateTimestep b pReductionData dLclTime dLclTimestep;
          dt2 = imposeMinimum dt1;
          dt3 = syncLimit b dLclTime (dTimeSync s) dt2;
          dt4 = capTimestep b dLclTime dt3
      in s\<lparr> dTime := dLclTime,
            dTimestep := dt4,
            dTimeHydrological := dLclTimeHydrological,
            dBatchTimesteps := dLclBatchTimesteps,
            uiBatchSuccessful := uiLclBatchSuccessful,
            uiBatchSkipped := uiLclBatchSkipped \<rparr>)"

section \<open>Cell data and the grid\<close>

text \<open>
  A \<^verbatim>\<open>cl_double4\<close> cell state: free-surface level, maximum level and the two unit-width
  discharges. The fields \<open>vx\<close>, \<open>vy\<close>, \<open>vz\<close>, \<open>vw\<close> are the components the kernels
  write \<^verbatim>\<open>.x\<close>, \<^verbatim>\<open>.y\<close>, \<^verbatim>\<open>.z\<close>, \<^verbatim>\<open>.w\<close> (or \<^verbatim>\<open>.S0\<close> to \<^verbatim>\<open>.S3\<close>).
\<close>

record cl_double4 =
  vx :: dbl
  vy :: dbl
  vz :: dbl
  vw :: dbl

text \<open>A \<^verbatim>\<open>cl_double8\<close> interface state: Z, H, Qx, Qy, U, V, Zb and an unused component.\<close>

record cl_double8 =
  S0 :: dbl
  S1 :: dbl
  S2 :: dbl
  S3 :: dbl
  S4 :: dbl
  S5 :: dbl
  S6 :: dbl
  S7 :: dbl

text \<open>
  The directions index the flux array of the scheme kernels: the kernels subtract
  \<^verbatim>\<open>pFlux[3]\<close> from \<^verbatim>\<open>pFlux[1]\<close> along x and \<^verbatim>\<open>pFlux[2]\<close> from \<^verbatim>\<open>pFlux[0]\<close> along y.
\<close>

definition DOMAIN_DIR_N :: "8 word" where "DOMAIN_DIR_N = 0"
definition DOMAIN_DIR_E :: "8 word" where "DOMAIN_DIR_E = 1"
definition DOMAIN_DIR_S :: "8 word" where "DOMAIN_DIR_S = 2"
definition DOMAIN_DIR_W :: "8 word" where "DOMAIN_DIR_W = 3"

text \<open>
  Modelled from the spec: \<^verbatim>\<open>getCellID\<close> is not among the kernels' source files; the
  specification gives the linear index of the cell at column \<open>i\<close>, row \<open>j\<close> as
  \<open>j \<cdot> C + i\<close>.
\<close>

definition getCellID :: "build \<Rightarrow> int \<Rightarrow> int \<Rightarrow> nat" where
  "getCellID b lIdxX lIdxY = nat (lIdxY * DOMAIN_COLS b + lIdxX)"

text \<open>
  Modelled from the spec: \<^verbatim>\<open>getNeighbourByIndices\<close> is not among the kernels' source
  files; the specification makes the neighbour in a direction the adjacent cell index,
  an index beyond the grid being clamped to the boundary cell. North is the next row, as
  in the cached kernels (\<^verbatim>\<open>lLocalY + 1\<close>).
\<close>

definition getNeighbourByIndices :: "build \<Rightarrow> int \<Rightarrow> int \<Rightarrow> 8 word \<Rightarrow> nat" where
  "getNeighbourByIndices b lIdxX lIdxY ucDirection =
     (let lX = (if ucDirection = DOMAIN_DIR_E then lIdxX + 1
                else if ucDirection = DOMAIN_DIR_W then lIdxX - 1 else lIdxX);
          lY = (if ucDirection = DOMAIN_DIR_N then lIdxY + 1
                else if ucDirection = DOMAIN_DIR_S then lIdxY - 1 else lIdxY)
      in getCellID b (max 0 (min (DOMAIN_COLS b - 1) lX)) (max 0 (min (DOMAIN_ROWS b - 1) lY)))"

text \<open>
  \<^verbatim>\<open>pow(x, y)\<close> for a literal exponent \<open>y\<close>, with the special cases of C99; the kernels
  call it with the exponents 1/3 and 10/3.
\<close>

definition dpow :: "dbl \<Rightarrow> real \<Rightarrow> dbl" where
  "dpow x y =
     (if y = 0 then Fin 1
      else case x of
        NaN \<Rightarrow> NaN
      | PInf \<Rightarrow> (if 0 < y then PInf else Fin 0)
      | NInf \<Rightarrow> (if 0 < y then (if y = of_int \<lfloor>y\<rfloor> \<and> odd \<lfloor>y\<rfloor> then NInf else PInf)
                 else Fin 0)
      | Fin a \<Rightarrow>
          (if 0 < a then Fin (a powr y)
           else if a = 0 then (if 0 < y then Fin 0 else PInf)
           else if y = of_int \<lfloor>y\<rfloor>
                then Fin ((if odd \<lfloor>y\<rfloor> then - 1 else 1) * (\<bar>a\<bar> powr y))
                else NaN))"

section \<open>Point-implicit friction\<close>

text \<open>\<^verbatim>\<open>implicitFriction\<close>; the bed elevation is a parameter the function never reads.\<close>

definition implicitFriction ::
    "build \<Rightarrow> cl_double4 \<Rightarrow> dbl \<Rightarrow> dbl \<Rightarrow> dbl \<Rightarrow> dbl \<Rightarrow> cl_double4" where
  "implicitFriction b pCellState dBedElevation dDepth dManningCoefficient dLclTimestep =
     (let z = vz pCellState;
          w = vw pCellState;
          dQ = dsqrt (dadd (dmul z z) (dmul w w));
          dQi = ddiv (Fin 1) dQ
      in if dlt dQ (Fin (VERY_SMALL b)) then pCellState
         else
           let sDepthR = ddiv (Fin 1) (dmul dDepth dDepth);
               dCf = ddiv (dmul (dmul (Fin GRAVITY) dManningCoefficient) dManningCoefficient)
                          (dpow dDepth (1 / 3));
               dSfx = dmul (dmul (dmul (dneg dCf) sDepthR) z) dQ;
               dSfy = dmul (dmul (dmul (dneg dCf) sDepthR) w) dQ;
               dDx = dadd (Fin 1)
                       (dmul (dmul (dmul dLclTimestep (dmul dCf sDepthR))
                                   (dadd (dmul (Fin 2) (dmul z z)) (dmul w w)))
                             dQi);
               dDy = dadd (Fin 1)
                       (dmul (dmul (dmul dLclTimestep (dmul dCf sDepthR))
                                   (dadd (dmul z z) (dmul (Fin 2) (dmul w w))))
                             dQi);
               dFx = ddiv dSfx dDx;
               dFy = ddiv dSfy dDy;
               dLclTimestepR = ddiv (Fin 1) dLclTimestep;
               dFx' = (if dge z (Fin 0) then dfmax dFx (dmul (dneg z) dLclTimestepR)
                       else dfmin dFx (dmul (dneg z) dLclTimestepR));
               dFy' = (if dge w (Fin 0) then dfmax dFy (dmul (dneg w) dLclTimestepR)
                       else dfmin dFy (dmul (dneg w) dLclTimestepR))
           in pCellState \<lparr> vz := dadd z (dmul dLclTimestep dFx'),
                            vw := dadd w (dmul dLclTimestep dFy') \<rparr>)"

text \<open>
  \<^verbatim>\<open>per_Friction\<close> for the work-item \<open>(lIdxX, lIdxY)\<close>: the cell buffer after the kernel.
\<close>

definition per_Friction ::
    "build \<Rightarrow> dbl \<Rightarrow> (nat \<Rightarrow> cl_double4) \<Rightarrow> (nat \<Rightarrow> dbl) \<Rightarrow> (nat \<Rightarrow> dbl) \<Rightarrow>
     int \<Rightarrow> int \<Rightarrow> (nat \<Rightarrow> cl_double4)" where
  "per_Friction b dLclTimestep pCellData dBedData dManningData lIdxX lIdxY =
     (if lIdxX \<ge> DOMAIN_COLS b - 1 \<or> lIdxY \<ge> DOMAIN_ROWS b - 1 \<or> lIdxX = 0 \<or> lIdxY = 0
      then pCellData
      else if dle dLclTimestep (Fin 0) then pCellData
      else
        let ulIdx = getCellID b lIdxX lIdxY;
            pCellState = pCellData ulIdx;
            dBedElevation = dBedData ulIdx;
            dDepth = dsub (vx pCellState) dBedElevation
        in if dlt dDepth (Fin (VERY_SMALL b)) then pCellData
           else pCellData (ulIdx :=
                  implicitFriction b pCellState dBedElevation dDepth (dManningData ulIdx)
                    dLclTimestep))"

section \<open>Interface reconstruction\<close>

text \<open>The initial interface state of one side, before the reconstruction.\<close>

definition initialState :: "build \<Rightarrow> cl_double4 \<Rightarrow> dbl \<Rightarrow> cl_double8" where
  "initialState b pState dBed =
     (let dDepth = dsub (vx pState) dBed
      in \<lparr> S0 = vx pState,
            S1 = dDepth,
            S2 = vz pState,
            S3 = vw pState,
            S4 = (if dlt dDepth (Fin (VERY_SMALL b)) then Fin 0 else ddiv (vz pState) dDepth),
            S5 = (if dlt dDepth (Fin (VERY_SMALL b)) then Fin 0 else ddiv (vw pState) dDepth),
            S6 = dBed,
            S7 = Fin 0 \<rparr>)"

text \<open>The adjustment of the depth and of the elements that depend on it.\<close>

definition adjustDepth :: "cl_double8 \<Rightarrow> dbl \<Rightarrow> dbl \<Rightarrow> cl_double8" where
  "adjustDepth pReconstruction dLevel dBedMaximum =
     (let r1 = pReconstruction \<lparr> S1 := dfmax (dsub dLevel dBedMaximum) (Fin 0) \<rparr>;
          r2 = r1 \<lparr> S0 := dadd (S1 r1) dBedMaximum \<rparr>;
          r3 = r2 \<lparr> S2 := dmul (S1 r2) (S4 r2) \<rparr>
      in r3 \<lparr> S3 := dmul (S1 r3) (S5 r3) \<rparr>)"

text \<open>
  The \<^verbatim>\<open>switch\<close> on the direction: the three tests of each case run in order, each on
  the states the tests before it left. A direction that is none of the four runs no case.
\<close>

definition stoppingConditions ::
    "build \<Rightarrow> 8 word \<Rightarrow> cl_double4 \<Rightarrow> cl_double4 \<Rightarrow> cl_double8 \<Rightarrow> cl_double8 \<Rightarrow>
     8 word \<times> cl_double8 \<times> cl_double8" where
  "stoppingConditions b ucDirection pStateLeft pStateRight l r =
     (if ucDirection = DOMAIN_DIR_N then
        (let s1 = (if dle (S1 l) (Fin (VERY_SMALL b)) \<and> dgt (vw pStateLeft) (Fin 0)
                   then 1 else 0);
             c2 = (dle (S1 r) (Fin (VERY_SMALL b)) \<and> dlt (S5 l) (Fin 0));
             s2 = (if c2 then s1 + 1 else s1);
             l2 = (if c2 then l \<lparr> S5 := Fin 0 \<rparr> else l);
             c3 = (dle (S1 l2) (Fin (VERY_SMALL b)) \<and> dgt (S5 r) (Fin 0));
             s3 = (if c3 then s2 + 1 else s2);
             r3 = (if c3 then r \<lparr> S5 := Fin 0 \<rparr> else r)
         in (s3, l2, r3))
      else if ucDirection = DOMAIN_DIR_S then
        (let s1 = (if dle (S1 r) (Fin (VERY_SMALL b)) \<and> dlt (vw pStateRight) (Fin 0)
                   then 1 else 0);
             c2 = (dle (S1 r) (Fin (VERY_SMALL b)) \<and> dlt (S5 l) (Fin 0));
             s2 = (if c2 then s1 + 1 else s1);
             l2 = (if c2 then l \<lparr> S5 := Fin 0 \<rparr> else l);
             c3 = (dle (S1 l2) (Fin (VERY_SMALL b)) \<and> dgt (S5 r) (Fin 0));
             s3 = (if c3 then s2 + 1 else s2);
             r3 = (if c3 then r \<lparr> S5 := Fin 0 \<rparr> else r)
         in (s3, l2, r3))
      else if ucDirection = DOMAIN_DIR_E then
        (let s1 = (if dle (S1 l) (Fin (VERY_SMALL b)) \<and> dgt (vz pStateLeft) (Fin 0)
                   then 1 else 0);
             c2 = (dle (S1 r) (Fin (VERY_SMALL b)) \<and> dlt (S4 l) (Fin 0));
             s2 = (if c2 then s1 + 1 else s1);
             l2 = (if c2 then l \<lparr> S4 := Fin 0 \<rparr> else l);
             c3 = (dle (S1 l2) (Fin (VERY_SMALL b)) \<and> dgt (S4 r) (Fin 0));
             s3 = (if c3 then s2 + 1 else s2);
             r3 = (if c3 then r \<lparr> S4 := Fin 0 \<rparr> else r)
         in (s3, l2, r3))
      else if ucDirection = DOMAIN_DIR_W then
        (let s1 = (if dle (S1 r) (Fin (VERY_SMALL b)) \<and> dlt (vz pStateRight) (Fin 0)
                   then 1 else 0);
             c2 = (dle (S1 r) (Fin (VERY_SMALL b)) \<and> dlt (S4 l) (Fin 0));
             s2 = (if c2 then s1 + 1 else s1);
             l2 = (if c2 then l \<lparr> S4 := Fin 0 \<rparr> else l);
             c3 = (dle (S1 l2) (Fin (VERY_SMALL b)) \<and> dgt (S4 r) (Fin 0));
             s3 = (if c3 then s2 + 1 else s2);
             r3 = (if c3 then r \<lparr> S4 := Fin 0 \<rparr> else r)
         in (s3, l2, r3))
      else (0, l, r))"

text \<open>
  \<^verbatim>\<open>reconstructInterface\<close>: the stop count and the two output states.
\<close>

definition reconstructInterface ::
    "build \<Rightarrow> cl_double4 \<Rightarrow> dbl \<Rightarrow> cl_double4 \<Rightarrow> dbl \<Rightarrow> 8 word \<Rightarrow>
     8 word \<times> cl_double8 \<times> cl_double8" where
  "reconstructInterface b pStateLeft dBedLeft pStateRight dBedRight ucDirection =
     (let l0 = initialState b pStateLeft dBedLeft;
          r0 = initialState b pStateRight dBedRight;
          dBedMaximum = (if dgt (S6 l0) (S6 r0) then S6 l0 else S6 r0);
          dShiftV = dfmax
            (dsub dBedMaximum
               (vx (if ucDirection < DOMAIN_DIR_S then pStateLeft else pStateRight)))
            (Fin 0);
          l1 = adjustDepth l0 (vx pStateLeft) dBedMaximum;
          r1 = adjustDepth r0 (vx pStateRight) dBedMaximum
      in case stoppingConditions b ucDirection pStateLeft pStateRight l1 r1 of
           (ucStop, l2, r2) \<Rightarrow>
             (ucStop,
              l2 \<lparr> S6 := dsub dBedMaximum dShiftV, S0 := dsub (S0 l2) dShiftV \<rparr>,
              r2 \<lparr> S6 := dsub dBedMaximum dShiftV, S0 := dsub (S0 r2) dShiftV \<rparr>))"

section \<open>The HLLC Riemann solver\<close>

text \<open>
  \<^verbatim>\<open>riemannSolver\<close>, in the dialect the universal header selects. The direction vector
  holds the integers 0 and 1, which the expressions multiply as numbers. The debug flag
  only prints and is left out. When neither middle state is selected the source returns a
  flux it never assigned; the selection flags exclude that path.
\<close>

definition riemannSolver :: "build \<Rightarrow> 8 word \<Rightarrow> cl_double8 \<Rightarrow> cl_double8 \<Rightarrow> cl_double4" where
  "riemannSolver b ucDirection pLeft0 pRight0 =
     (let d0 = (if ucDirection = DOMAIN_DIR_N \<or> ucDirection = DOMAIN_DIR_S
                then Fin 0 else Fin 1);
          d1 = (if ucDirection = DOMAIN_DIR_N \<or> ucDirection = DOMAIN_DIR_S
                then Fin 1 else Fin 0);
          eps = Fin (VERY_SMALL b)
      in if dlt (S1 pLeft0) eps \<and> dlt (S1 pRight0) eps then
           (let zsum = dadd (S0 pLeft0) (S0 pRight0);
                p = dsub (dmul (dmul zsum (Fin (1 / 2))) (dmul zsum (Fin (1 / 2))))
                         (dmul (S6 pLeft0) zsum)
            in \<lparr> vx = Fin 0,
                  vy = dmul (dmul (dmul d0 (Fin (1 / 2))) (Fin GRAVITY)) p,
                  vz = dmul (dmul (dmul d1 (Fin (1 / 2))) (Fin GRAVITY)) p,
                  vw = Fin 0 \<rparr>)
         else
           (let pLeft = pLeft0
                  \<lparr> S4 := (if dlt (S1 pLeft0) eps then Fin 0
                            else ddiv (S2 pLeft0) (S1 pLeft0)),
                    S5 := (if dlt (S1 pLeft0) eps then Fin 0
                            else ddiv (S3 pLeft0) (S1 pLeft0)) \<rparr>;
                pRight = pRight0
                  \<lparr> S4 := (if dlt (S1 pRight0) eps then Fin 0
                            else ddiv (S2 pRight0) (S1 pRight0)),
                    S5 := (if dlt (S1 pRight0) eps then Fin 0
                            else ddiv (S3 pRight0) (S1 pRight0)) \<rparr>;
                dVelL = dadd (dmul d0 (S4 pLeft)) (dmul d1 (S5 pLeft));
                dVelR = dadd (dmul d0 (S4 pRight)) (dmul d1 (S5 pRight));
                dDisL = dadd (dmul d0 (S2 pLeft)) (dmul d1 (S3 pLeft));
                dDisR = dadd (dmul d0 (S2 pRight)) (dmul d1 (S3 pRight));
                dAL = dsqrt (dmul (Fin GRAVITY) (S1 pLeft));
                dAR = dsqrt (dmul (Fin GRAVITY) (S1 pRight));
                a_Avg = dmul (dadd dAL dAR) (Fin (1 / 2));
                hs = dadd a_Avg (dmul (dsub dVelL dVelR) (Fin (1 / 4)));
                H_star = dmul (dmul hs hs) (Fin GRAVITY_R);
                U_star = dsub (dadd (dmul (dadd dVelL dVelR) (Fin (1 / 2))) dAL) dAR;
                A_star = dsqrt (dmul (Fin GRAVITY) H_star);
                s_L = (if dlt (S1 pLeft) eps then dsub dVelR (dmul (Fin 2) dAR)
                       else if dgt (dsub dVelL dAL) (dsub U_star A_star)
                            then dsub U_star A_star else dsub dVelL dAL);
                s_R = (if dlt (S1 pRight) eps then dadd dVelL (dmul (Fin 2) dAL)
                       else if dlt (dadd dVelR dAR) (dadd U_star A_star)
                            then dadd U_star A_star else dadd dVelR dAR);
                s_M = ddiv
                        (dsub (dmul (dmul s_L (S1 pRight)) (dsub dVelR s_R))
                              (dmul (dmul s_R (S1 pLeft)) (dsub dVelL s_L)))
                        (dsub (dmul (S1 pRight) (dsub dVelR s_R))
                              (dmul (S1 pLeft) (dsub dVelL s_L)));
                pl = dsub (dmul (S0 pLeft) (S0 pLeft))
                          (dmul (dmul (Fin 2) (S6 pLeft)) (S0 pLeft));
                pr = dsub (dmul (S0 pRight) (S0 pRight))
                          (dmul (dmul (Fin 2) (S6 pLeft)) (S0 pRight));
                pFluxL = \<lparr> vx = dDisL,
                  vy = dadd (dmul dVelL (S2 pLeft))
                            (dmul (dmul (dmul d0 (Fin (1 / 2))) (Fin GRAVITY)) pl),
                  vz = dadd (dmul dVelL (S3 pLeft))
                            (dmul (dmul (dmul d1 (Fin (1 / 2))) (Fin GRAVITY)) pl),
                  vw = Fin 0 \<rparr>;
                pFluxR = \<lparr> vx = dDisR,
                  vy = dadd (dmul dVelR (S2 pRight))
                            (dmul (dmul (dmul d0 (Fin (1 / 2))) (Fin GRAVITY)) pr),
                  vz = dadd (dmul dVelR (S3 pRight))
                            (dmul (dmul (dmul d1 (Fin (1 / 2))) (Fin GRAVITY)) pr),
                  vw = Fin 0 \<rparr>;
                bLeft = dge s_L (Fin 0);
                bMiddle_1 = (dlt s_L (Fin 0) \<and> dge s_R (Fin 0) \<and> dge s_M (Fin 0));
                bMiddle_2 = (dlt s_L (Fin 0) \<and> dge s_R (Fin 0) \<and> \<not> bMiddle_1);
                bRight = (\<not> bLeft \<and> \<not> bMiddle_1 \<and> \<not> bMiddle_2)
            in if bLeft then pFluxL
               else if bRight then pFluxR
               else
                 (let FM_L = dadd (dmul d0 (vy pFluxL)) (dmul d1 (vz pFluxL));
                      FM_R = dadd (dmul d0 (vy pFluxR)) (dmul d1 (vz pFluxR));
                      F1_M = ddiv
                        (dadd (dsub (dmul s_R (vx pFluxL)) (dmul s_L (vx pFluxR)))
                              (dmul (dmul s_L s_R) (dsub (S0 pRight) (S0 pLeft))))
                        (dsub s_R s_L);
                      F2_M = ddiv
                        (dadd (dsub (dmul s_R FM_L) (dmul s_L FM_R))
                              (dmul (dmul s_L s_R) (dsub dDisR dDisL)))
                        (dsub s_R s_L)
                  in if bMiddle_1 then
                       \<lparr> vx = F1_M,
                         vy = dadd (dmul d0 F2_M) (dmul (dmul d1 F1_M) (S4 pLeft)),
                         vz = dadd (dmul (dmul d0 F1_M) (S5 pLeft)) (dmul d1 F2_M),
                         vw = Fin 0 \<rparr>
                     else if bMiddle_2 then
                       \<lparr> vx = F1_M,
                         vy = dadd (dmul d0 F2_M) (dmul (dmul d1 F1_M) (S4 pRight)),
                         vz = dadd (dmul (dmul d0 F1_M) (S5 pRight)) (dmul d1 F2_M),
                         vw = Fin 0 \<rparr>
                     else undefined)))"

section \<open>The scheme kernels\<close>

text \<open>
  A cell is disabled when its maximum level is at most -9999 or its level is -9999.
\<close>

definition cellDisabled :: "cl_double4 \<Rightarrow> bool" where
  "cellDisabled pCellData \<longleftrightarrow>
     dle (vy pCellData) (Fin (- 9999)) \<or> deq (vx pCellData) (Fin (- 9999))"

text \<open>The count of dry cells among a cell and its four neighbours.\<close>

definition dryCount ::
    "build \<Rightarrow> dbl \<Rightarrow> dbl \<Rightarrow> dbl \<Rightarrow> dbl \<Rightarrow> dbl \<Rightarrow> dbl \<Rightarrow> dbl \<Rightarrow> dbl \<Rightarrow> dbl \<Rightarrow> dbl \<Rightarrow>
     8 word" where
  "dryCount b zC bC zN bN zE bE zS bS zW bW =
     (if dlt (dsub zC bC) (Fin (VERY_SMALL b)) then 1 else 0) +
     (if dlt (dsub zN bN) (Fin (VERY_SMALL b)) then 1 else 0) +
     (if dlt (dsub zE bE) (Fin (VERY_SMALL b)) then 1 else 0) +
     (if dlt (dsub zS bS) (Fin (VERY_SMALL b)) then 1 else 0) +
     (if dlt (dsub zW bW) (Fin (VERY_SMALL b)) then 1 else 0)"

text \<open>Round a change value to zero if it is small.\<close>

definition roundSmall :: "build \<Rightarrow> dbl \<Rightarrow> dbl" where
  "roundSmall b d = (if dlt (dfabs d) (Fin (VERY_SMALL b)) then Fin 0 else d)"

text \<open>
  The Godunov update of a cell, after its own state and those of its four neighbours
  have been loaded: interfaces, fluxes, source terms, stopping conditions, friction and
  the clamps. The result is the state the kernel commits.
\<close>

definition gts_update ::
    "build \<Rightarrow> dbl \<Rightarrow> dbl \<Rightarrow> cl_double4 \<Rightarrow> dbl \<Rightarrow>
     cl_double4 \<Rightarrow> dbl \<Rightarrow> cl_double4 \<Rightarrow> dbl \<Rightarrow> cl_double4 \<Rightarrow> dbl \<Rightarrow> cl_double4 \<Rightarrow> dbl \<Rightarrow>
     cl_double4" where
  "gts_update b dLclTimestep dManningCoef pCellData dCellBedElev
       pNeigDataN dNeigBedElevN pNeigDataE dNeigBedElevE
       pNeigDataS dNeigBedElevS pNeigDataW dNeigBedElevW =
     (case reconstructInterface b pCellData dCellBedElev pNeigDataN dNeigBedElevN DOMAIN_DIR_N of
        (stopN, leftN, rightN) \<Rightarrow>
     case reconstructInterface b pNeigDataS dNeigBedElevS pCellData dCellBedElev DOMAIN_DIR_S of
        (stopS, leftS, rightS) \<Rightarrow>
     case reconstructInterface b pCellData dCellBedElev pNeigDataE dNeigBedElevE DOMAIN_DIR_E of
        (stopE, leftE, rightE) \<Rightarrow>
     case reconstructInterface b pNeigDataW dNeigBedElevW pCellData dCellBedElev DOMAIN_DIR_W of
        (stopW, leftW, rightW) \<Rightarrow>
       (let ucStop = stopN + stopS + stopE + stopW;
            fluxN = riemannSolver b DOMAIN_DIR_N leftN rightN;
            fluxS = riemannSolver b DOMAIN_DIR_S leftS rightS;
            fluxE = riemannSolver b DOMAIN_DIR_E leftE rightE;
            fluxW = riemannSolver b DOMAIN_DIR_W leftW rightW;
            zN = S0 rightN; bN = S6 rightN;
            zS = S0 leftS; bS = S6 leftS;
            zE = S0 rightE; bE = S6 rightE;
            zW = S0 leftW; bW = S6 leftW;
            srcX = Fin 0;
            srcY = dmul (dmul (dmul (Fin (- 1)) (Fin GRAVITY))
                              (dmul (dadd zE zW) (Fin (1 / 2))))
                        (dmul (dsub bE bW) (Fin (DOMAIN_DELTAX_R b)));
            srcZ = dmul (dmul (dmul (Fin (- 1)) (Fin GRAVITY))
                              (dmul (dadd zN zS) (Fin (1 / 2))))
                        (dmul (dsub bN bS) (Fin (DOMAIN_DELTAY_R b)));
            deltaX = roundSmall b
              (dsub (dadd (dmul (dsub (vx fluxE) (vx fluxW)) (Fin (DOMAIN_DELTAX_R b)))
                          (dmul (dsub (vx fluxN) (vx fluxS)) (Fin (DOMAIN_DELTAY_R b))))
                    srcX);
            deltaZ = roundSmall b
              (dsub (dadd (dmul (dsub (vy fluxE) (vy fluxW)) (Fin (DOMAIN_DELTAX_R b)))
                          (dmul (dsub (vy fluxN) (vy fluxS)) (Fin (DOMAIN_DELTAY_R b))))
                    srcY);
            deltaW = roundSmall b
              (dsub (dadd (dmul (dsub (vz fluxE) (vz fluxW)) (Fin (DOMAIN_DELTAX_R b)))
                          (dmul (dsub (vz fluxN) (vz fluxS)) (Fin (DOMAIN_DELTAY_R b))))
                    srcZ);
            c1 = (if ucStop > 0 then pCellData \<lparr> vz := Fin 0, vw := Fin 0 \<rparr> else pCellData);
            c2 = c1 \<lparr> vx := dsub (vx c1) (dmul deltaX dLclTimestep),
                       vz := dsub (vz c1) (dmul deltaZ dLclTimestep),
                       vw := dsub (vw c1) (dmul deltaW dLclTimestep) \<rparr>;
            dDepth = dsub (vx c2) dCellBedElev;
            c3 = (if FRICTION_IN_FLUX_KERNEL b \<and> dge dDepth (Fin (VERY_SMALL b))
                  then implicitFriction b c2 dCellBedElev dDepth dManningCoef dLclTimestep
                  else c2);
            c4 = (if dlt dDepth (Fin (VERY_SMALL b)) then c3 \<lparr> vx := dCellBedElev \<rparr> else c3)
        in if dgt (vx c4) (vy c4) \<and> dgt (vy c4) (Fin (- 9990))
           then c4 \<lparr> vy := vx c4 \<rparr> else c4))"

text \<open>
  \<^verbatim>\<open>gts_cacheDisabled\<close> for the work-item \<open>(lIdxX, lIdxY)\<close>: the destination buffer after
  the kernel. A path that returns without a store gives the destination buffer back as
  it was. The flag \<open>FRICTION_IN_FLUX_KERNEL\<close> of the build stands for both friction
  macros being defined.
\<close>

definition gts_cacheDisabled ::
    "build \<Rightarrow> dbl \<Rightarrow> (nat \<Rightarrow> dbl) \<Rightarrow> (nat \<Rightarrow> cl_double4) \<Rightarrow> (nat \<Rightarrow> cl_double4) \<Rightarrow>
     (nat \<Rightarrow> dbl) \<Rightarrow> int \<Rightarrow> int \<Rightarrow> (nat \<Rightarrow> cl_double4)" where
  "gts_cacheDisabled b dLclTimestep dBedElevation pCellStateSrc pCellStateDst dManning
       lIdxX lIdxY =
     (let ulIdx = getCellID b lIdxX lIdxY
      in if lIdxX \<ge> DOMAIN_COLS b - 1 \<or> lIdxY \<ge> DOMAIN_ROWS b - 1 \<or>
            lIdxX \<le> 0 \<or> lIdxY \<le> 0
         then pCellStateDst
         else if dle dLclTimestep (Fin 0)
         then pCellStateDst (ulIdx := pCellStateSrc ulIdx)
         else
           let dCellBedElev = dBedElevation ulIdx;
               pCellData = pCellStateSrc ulIdx;
               dManningCoef = dManning ulIdx
           in if cellDisabled pCellData
              then pCellStateDst (ulIdx := pCellData)
              else
                let iW = getNeighbourByIndices b lIdxX lIdxY DOMAIN_DIR_W;
                    iS = getNeighbourByIndices b lIdxX lIdxY DOMAIN_DIR_S;
                    iN = getNeighbourByIndices b lIdxX lIdxY DOMAIN_DIR_N;
                    iE = getNeighbourByIndices b lIdxX lIdxY DOMAIN_DIR_E
                in if dryCount b (vx pCellData) dCellBedElev
                        (vx (pCellStateSrc iN)) (dBedElevation iN)
                        (vx (pCellStateSrc iE)) (dBedElevation iE)
                        (vx (pCellStateSrc iS)) (dBedElevation iS)
                        (vx (pCellStateSrc iW)) (dBedElevation iW) \<ge> 5
                   then pCellStateDst
                   else pCellStateDst (ulIdx :=
                          gts_update b dLclTimestep dManningCoef pCellData dCellBedElev
                            (pCellStateSrc iN) (dBedElevation iN)
                            (pCellStateSrc iE) (dBedElevation iE)
                            (pCellStateSrc iS) (dBedElevation iS)
                            (pCellStateSrc iW) (dBedElevation iW)))"

text \<open>\<^verbatim>\<open>calculateInertialFlux\<close> of the simplified inertial scheme.\<close>

definition calculateInertialFlux ::
    "build \<Rightarrow> dbl \<Rightarrow> dbl \<Rightarrow> dbl \<Rightarrow> dbl \<Rightarrow> dbl \<Rightarrow> dbl \<Rightarrow> dbl \<Rightarrow> dbl" where
  "calculateInertialFlux b dManningCoef dLclTimestep dPreviousDischarge
       dLevelUpstream dBedUpstream dLevelDownstream dBedDownstream =
     (let dDepth = dsub (dfmax dLevelDownstream dLevelUpstream)
                        (dmax dBedUpstream dBedDownstream);
          dSlope = dmul (dsub dLevelDownstream dLevelUpstream) (Fin (DOMAIN_DELTAX_R b));
          q0 = ddiv
                 (dsub dPreviousDischarge
                       (dmul (dmul (dmul (Fin GRAVITY) dDepth) dLclTimestep) dSlope))
                 (dadd (Fin 1)
                       (ddiv (dmul (dmul (dmul (dmul (dmul (Fin GRAVITY) dDepth) dLclTimestep)
                                               dManningCoef) dManningCoef)
                                   (dfabs dPreviousDischarge))
                             (dpow dDepth (10 / 3))));
          fr = (\<lambda>q. ddiv (ddiv (dfabs q) dDepth) (dsqrt (dmul (Fin GRAVITY) dDepth)));
          lim = dmul (dmul dDepth (dsqrt (dmul (Fin GRAVITY) dDepth))) (Fin (FROUDE_LIMIT b));
          q1 = (if dgt q0 (Fin 0) \<and> dgt (fr q0) (Fin (FROUDE_LIMIT b)) then lim else q0);
          q2 = (if dlt q1 (Fin 0) \<and> dgt (fr q1) (Fin (FROUDE_LIMIT b))
                then dsub (Fin 0) lim else q1)
      in if dlt dDepth (Fin (VERY_SMALL b)) then Fin 0 else q2)"

text \<open>The inertial update of a cell from its own state and its four neighbours.\<close>

definition ine_update ::
    "build \<Rightarrow> dbl \<Rightarrow> dbl \<Rightarrow> cl_double4 \<Rightarrow> dbl \<Rightarrow>
     cl_double4 \<Rightarrow> dbl \<Rightarrow> cl_double4 \<Rightarrow> dbl \<Rightarrow> cl_double4 \<Rightarrow> dbl \<Rightarrow> cl_double4 \<Rightarrow> dbl \<Rightarrow>
     cl_double4" where
  "ine_update b dLclTimestep dManningCoef pCellData dCellBedElev
       pNeigDataN dNeigBedElevN pNeigDataE dNeigBedElevE
       pNeigDataS dNeigBedElevS pNeigDataW dNeigBedElevW =
     (let qN = calculateInertialFlux b dManningCoef dLclTimestep (vw pNeigDataN)
                 (vx pNeigDataN) dNeigBedElevN (vx pCellData) dCellBedElev;
          qE = calculateInertialFlux b dManningCoef dLclTimestep (vz pNeigDataE)
                 (vx pNeigDataE) dNeigBedElevE (vx pCellData) dCellBedElev;
          qS = calculateInertialFlux b dManningCoef dLclTimestep (vw pCellData)
                 (vx pCellData) dCellBedElev (vx pNeigDataS) dNeigBedElevS;
          qW = calculateInertialFlux b dManningCoef dLclTimestep (vz pCellData)
                 (vx pCellData) dCellBedElev (vx pNeigDataW) dNeigBedElevW;
          c1 = pCellData \<lparr> vz := qW, vw := qS \<rparr>;
          dDeltaFSL = dmul (dsub (dadd (dsub qE qW) qN) qS) (Fin (DOMAIN_DELTAY_R b));
          c2 = c1 \<lparr> vx := dadd (vx c1) (dmul dLclTimestep dDeltaFSL) \<rparr>;
          c3 = (if dgt (vx c2) (vy c2) then c2 \<lparr> vy := vx c2 \<rparr> else c2)
      in if dlt (dsub (vx c3) dCellBedElev) (Fin (VERY_SMALL b))
         then c3 \<lparr> vx := dCellBedElev \<rparr> else c3)"

text \<open>
  \<^verbatim>\<open>ine_cacheDisabled\<close> for the work-item \<open>(lIdxX, lIdxY)\<close>: the destination buffer
  after the kernel.
\<close>

definition ine_cacheDisabled ::
    "build \<Rightarrow> dbl \<Rightarrow> (nat \<Rightarrow> dbl) \<Rightarrow> (nat \<Rightarrow> cl_double4) \<Rightarrow> (nat \<Rightarrow> cl_double4) \<Rightarrow>
     (nat \<Rightarrow> dbl) \<Rightarrow> int \<Rightarrow> int \<Rightarrow> (nat \<Rightarrow> cl_double4)" where
  "ine_cacheDisabled b dLclTimestep dBedElevation pCellStateSrc pCellStateDst dManning
       lIdxX lIdxY =
     (let ulIdx = getCellID b lIdxX lIdxY
      in if lIdxX \<ge> DOMAIN_COLS b - 1 \<or> lIdxY \<ge> DOMAIN_ROWS b - 1 \<or>
            lIdxX \<le> 0 \<or> lIdxY \<le> 0
         then pCellStateDst
         else if dle dLclTimestep (Fin 0)
         then pCellStateDst
         else
           let dCellBedElev = dBedElevation ulIdx;
               pCellData = pCellStateSrc ulIdx;
               dManningCoef = dManning ulIdx
           in if cellDisabled pCellData
              then pCellStateDst (ulIdx := pCellData)
              else
                let iW = getNeighbourByIndices b lIdxX lIdxY DOMAIN_DIR_W;
                    iS = getNeighbourByIndices b lIdxX lIdxY DOMAIN_DIR_S;
                    iN = getNeighbourByIndices b lIdxX lIdxY DOMAIN_DIR_N;
                    iE = getNeighbourByIndices b lIdxX lIdxY DOMAIN_DIR_E
                in if dryCount b (vx pCellData) dCellBedElev
                        (vx (pCellStateSrc iN)) (dBedElevation iN)
                        (vx (pCellStateSrc iE)) (dBedElevation iE)
                        (vx (pCellStateSrc iS)) (dBedElevation iS)
                        (vx (pCellStateSrc iW)) (dBedElevation iW) \<ge> 5
                   then pCellStateDst
                   else pCellStateDst (ulIdx :=
                          ine_update b dLclTimestep dManningCoef pCellData dCellBedElev
                            (pCellStateSrc iN) (dBedElevation iN)
                            (pCellStateSrc iE) (dBedElevation iE)
                            (pCellStateSrc iS) (dBedElevation iS)
                            (pCellStateSrc iW) (dBedElevation iW)))"

section \<open>Boundary kernels\<close>

text \<open>
  Conversion of a double to \<^verbatim>\<open>cl_ulong\<close> truncates towards zero. C leaves the conversion
  of NaN, of an infinity and of a value outside the range of the type undefined; the model
  returns \<open>None\<close> for them, and a kernel that meets one returns \<open>None\<close>.
\<close>

definition to_ulong :: "dbl \<Rightarrow> 64 word option" where
  "to_ulong d =
     (case d of
        Fin a \<Rightarrow>
          (let i = (if 0 \<le> a then \<lfloor>a\<rfloor> else \<lceil>a\<rceil>)
           in if 0 \<le> i \<and> i < 2 ^ 64 then Some (word_of_int i) else None)
      | _ \<Rightarrow> None)"

fun dfloor :: "dbl \<Rightarrow> dbl" where
  "dfloor (Fin a) = Fin (of_int \<lfloor>a\<rfloor>)"
| "dfloor PInf = PInf"
| "dfloor NInf = NInf"
| "dfloor NaN = NaN"

text \<open>\<^verbatim>\<open>fmod(x, y)\<close>: the remainder of the division truncated towards zero.\<close>

fun dfmod :: "dbl \<Rightarrow> dbl \<Rightarrow> dbl" where
  "dfmod (Fin a) (Fin c) =
     (if c = 0 then NaN
      else Fin (a - c * of_int (if 0 \<le> a / c then \<lfloor>a / c\<rfloor> else \<lceil>a / c\<rceil>)))"
| "dfmod (Fin a) PInf = Fin a"
| "dfmod (Fin a) NInf = Fin a"
| "dfmod x y = NaN"

text \<open>Boundary operating definitions of the boundary header.\<close>

definition BOUNDARY_DEPTH_IGNORE :: "32 word" where "BOUNDARY_DEPTH_IGNORE = 0"
definition BOUNDARY_DEPTH_IS_FSL :: "32 word" where "BOUNDARY_DEPTH_IS_FSL = 1"
definition BOUNDARY_DEPTH_IS_DEPTH :: "32 word" where "BOUNDARY_DEPTH_IS_DEPTH = 2"
definition BOUNDARY_DEPTH_IS_CRITICAL :: "32 word" where "BOUNDARY_DEPTH_IS_CRITICAL = 3"

definition BOUNDARY_DISCHARGE_IGNORE :: "32 word" where "BOUNDARY_DISCHARGE_IGNORE = 0"
definition BOUNDARY_DISCHARGE_IS_DISCHARGE :: "32 word" where
  "BOUNDARY_DISCHARGE_IS_DISCHARGE = 1"
definition BOUNDARY_DISCHARGE_IS_VELOCITY :: "32 word" where
  "BOUNDARY_DISCHARGE_IS_VELOCITY = 2"
definition BOUNDARY_DISCHARGE_IS_VOLUME :: "32 word" where "BOUNDARY_DISCHARGE_IS_VOLUME = 3"

definition BOUNDARY_UNIFORM_RAIN_INTENSITY :: "32 word" where
  "BOUNDARY_UNIFORM_RAIN_INTENSITY = 0"
definition BOUNDARY_UNIFORM_LOSS_RATE :: "32 word" where "BOUNDARY_UNIFORM_LOSS_RATE = 1"

definition BOUNDARY_GRIDDED_RAIN_INTENSITY :: "64 word" where
  "BOUNDARY_GRIDDED_RAIN_INTENSITY = 0"
definition BOUNDARY_GRIDDED_RAIN_ACCUMUL :: "64 word" where "BOUNDARY_GRIDDED_RAIN_ACCUMUL = 1"
definition BOUNDARY_GRIDDED_MASS_FLUX :: "64 word" where "BOUNDARY_GRIDDED_MASS_FLUX = 2"

record sBdyCellConfiguration =
  cellTimeseriesEntries :: "64 word"
  cellTimeseriesInterval :: dbl
  cellTimeseriesLength :: dbl
  RelationCount :: "64 word"
  DefinitionDepth :: "32 word"
  DefinitionDischarge :: "32 word"

record sBdyGriddedConfiguration =
  TimeseriesInterval :: dbl
  GridResolution :: dbl
  GridOffsetX :: dbl
  GridOffsetY :: dbl
  TimeseriesEntries :: "64 word"
  Definition :: "64 word"
  GridRows :: "64 word"
  GridCols :: "64 word"

record sBdyUniformConfiguration =
  uniTimeseriesEntries :: "32 word"
  uniTimeseriesInterval :: dbl
  uniTimeseriesLength :: dbl
  uniDefinition :: "32 word"

text \<open>Componentwise operations on \<^verbatim>\<open>cl_double4\<close> values.\<close>

definition add4 :: "cl_double4 \<Rightarrow> cl_double4 \<Rightarrow> cl_double4" where
  "add4 p q = \<lparr> vx = dadd (vx p) (vx q), vy = dadd (vy p) (vy q),
                vz = dadd (vz p) (vz q), vw = dadd (vw p) (vw q) \<rparr>"

definition sub4 :: "cl_double4 \<Rightarrow> cl_double4 \<Rightarrow> cl_double4" where
  "sub4 p q = \<lparr> vx = dsub (vx p) (vx q), vy = dsub (vy p) (vy q),
                vz = dsub (vz p) (vz q), vw = dsub (vw p) (vw q) \<rparr>"

definition scale4 :: "cl_double4 \<Rightarrow> dbl \<Rightarrow> cl_double4" where
  "scale4 p k = \<lparr> vx = dmul (vx p) k, vy = dmul (vy p) k,
                  vz = dmul (vz p) k, vw = dmul (vw p) k \<rparr>"

text \<open>
  The state that \<^verbatim>\<open>bdy_Cell\<close> stores for a cell, from the interpolated time series entry.
\<close>

definition bdy_Cell_apply ::
    "build \<Rightarrow> sBdyCellConfiguration \<Rightarrow> dbl \<Rightarrow> cl_double4 \<Rightarrow> dbl \<Rightarrow> cl_double4 \<Rightarrow>
     cl_double4" where
  "bdy_Cell_apply b pConfig dLocalTimestep pCellData dCellBed pTSInterp =
     (let volume = (DefinitionDischarge pConfig = BOUNDARY_DISCHARGE_IS_VOLUME);
          free = (dgt (dfabs (vz pTSInterp)) (Fin (VERY_SMALL b)) \<or>
                  dgt (dfabs (vw pTSInterp)) (Fin (VERY_SMALL b)) \<or> volume);
          dDepth0 = dadd
            (dmul (dmul (dfabs (vz pTSInterp)) dLocalTimestep) (Fin (DOMAIN_DELTAY_R b)))
            (dmul (dmul (dfabs (vw pTSInterp)) dLocalTimestep) (Fin (DOMAIN_DELTAX_R b)));
          dCriticalDepth0 = dfmax
            (dpow (dmul (dmul (vz pTSInterp) (vz pTSInterp)) (Fin GRAVITY_R)) (1 / 3))
            (dpow (dmul (dmul (vw pTSInterp) (vw pTSInterp)) (Fin GRAVITY_R)) (1 / 3));
          dVol = ddiv (dmul (dfabs (vz pTSInterp)) dLocalTimestep)
                      (dmul (Fin (DOMAIN_DELTAX b)) (Fin (DOMAIN_DELTAY b)));
          dDepth = (if volume
                    then (if dlt (vz pTSInterp) (Fin 0) then dneg dVol else dVol)
                    else dDepth0);
          dCriticalDepth = (if volume then Fin 0 else dCriticalDepth0);
          ts = (if DefinitionDepth pConfig \<noteq> BOUNDARY_DEPTH_IS_DEPTH \<and>
                   DefinitionDepth pConfig \<noteq> BOUNDARY_DEPTH_IS_FSL \<and> free \<and> volume
                then pTSInterp \<lparr> vz := Fin 0, vw := Fin 0 \<rparr> else pTSInterp);
          c1 = (if DefinitionDepth pConfig = BOUNDARY_DEPTH_IS_DEPTH
                then pCellData \<lparr> vx := dadd dCellBed (vy pTSInterp) \<rparr>
                else if DefinitionDepth pConfig = BOUNDARY_DEPTH_IS_FSL
                then pCellData \<lparr> vx := dfmax dCellBed (vy pTSInterp) \<rparr>
                else if free
                then pCellData \<lparr> vx := dfmax (dadd dCellBed dCriticalDepth)
                                            (dadd (vx pCellData) dDepth) \<rparr>
                else pCellData);
          c2 = (if DefinitionDischarge pConfig = BOUNDARY_DISCHARGE_IS_DISCHARGE
                then c1 \<lparr> vz := vz ts \<rparr>
                else if DefinitionDischarge pConfig = BOUNDARY_DISCHARGE_IS_VELOCITY
                then c1 \<lparr> vz := dmul (vz ts) (dsub (vx c1) dCellBed) \<rparr>
                else c1)
      in if DefinitionDischarge pConfig = BOUNDARY_DISCHARGE_IS_DISCHARGE
         then c2 \<lparr> vw := vw ts \<rparr>
         else if DefinitionDischarge pConfig = BOUNDARY_DISCHARGE_IS_VELOCITY
         then c2 \<lparr> vw := dmul (vw ts) (dsub (vx c2) dCellBed) \<rparr>
         else c2)"

text \<open>
  \<^verbatim>\<open>bdy_Cell\<close> for the work-item \<open>lRelationID\<close>: the cell buffer after the kernel. The
  kernel has no test of the cell's state before it stores.
\<close>

definition bdy_Cell ::
    "build \<Rightarrow> sBdyCellConfiguration \<Rightarrow> (nat \<Rightarrow> 64 word) \<Rightarrow> (nat \<Rightarrow> cl_double4) \<Rightarrow>
     dbl \<Rightarrow> dbl \<Rightarrow> (nat \<Rightarrow> cl_double4) \<Rightarrow> (nat \<Rightarrow> dbl) \<Rightarrow> nat \<Rightarrow>
     (nat \<Rightarrow> cl_double4) option" where
  "bdy_Cell b pConfig pRelations pTimeseries dLocalTime dLocalTimestep pCellState pCellBed
       lRelationID =
     (if lRelationID \<ge> unat (RelationCount pConfig) \<or>
         dge dLocalTime (cellTimeseriesLength pConfig) \<or> dle dLocalTimestep (Fin 0)
      then Some pCellState
      else
        case to_ulong (dfloor (ddiv dLocalTime (cellTimeseriesInterval pConfig))) of
          None \<Rightarrow> None
        | Some ulBaseTimestep \<Rightarrow>
            (let ulNextTimestep = ulBaseTimestep + 1;
                 ulCellID = unat (pRelations lRelationID);
                 pCellData = pCellState ulCellID;
                 dCellBed = pCellBed ulCellID;
                 pTSBase = pTimeseries (unat ulBaseTimestep);
                 pTSNext = pTimeseries (unat ulNextTimestep);
                 pTSInterp = add4 pTSBase
                   (scale4 (sub4 pTSNext pTSBase)
                      (ddiv (dfmod dLocalTime (cellTimeseriesInterval pConfig))
                            (cellTimeseriesInterval pConfig)))
             in Some (pCellState (ulCellID :=
                  bdy_Cell_apply b pConfig dLocalTimestep pCellData dCellBed pTSInterp))))"

text \<open>
  \<^verbatim>\<open>bdy_Uniform\<close> for the work-item \<open>(lIdxX, lIdxY)\<close>. A time series entry is a pair of
  a time and a value.
\<close>

definition bdy_Uniform ::
    "build \<Rightarrow> sBdyUniformConfiguration \<Rightarrow> (nat \<Rightarrow> dbl \<times> dbl) \<Rightarrow> dbl \<Rightarrow> dbl \<Rightarrow> dbl \<Rightarrow>
     (nat \<Rightarrow> cl_double4) \<Rightarrow> (nat \<Rightarrow> dbl) \<Rightarrow> int \<Rightarrow> int \<Rightarrow> (nat \<Rightarrow> cl_double4) option" where
  "bdy_Uniform b pConfig pTimeseries dLclTime dLclRealTimestep dLclTimestep pCellState
       pCellBed lIdxX lIdxY =
     (if lIdxX \<ge> DOMAIN_COLS b - 1 \<or> lIdxY \<ge> DOMAIN_ROWS b - 1 \<or> lIdxX \<le> 0 \<or> lIdxY \<le> 0
      then Some pCellState
      else
        let ulIdx = getCellID b lIdxX lIdxY;
            pCellData = pCellState ulIdx;
            dCellBedElev = pCellBed ulIdx
        in if dlt dLclTimestep (Fin TIMESTEP_HYDROLOGICAL) \<or> dle dLclRealTimestep (Fin 0)
           then Some pCellState
           else if dge dLclTime (uniTimeseriesLength pConfig) \<or>
                   dle (vy pCellData) (Fin (- 9999))
           then Some pCellState
           else
             case to_ulong (dfloor (ddiv dLclTime (uniTimeseriesInterval pConfig))) of
               None \<Rightarrow> None
             | Some ulTimestep \<Rightarrow>
                 (let dRecord = pTimeseries (unat ulTimestep);
                      amount = dmul (ddiv (snd dRecord) (Fin 3600000)) dLclTimestep;
                      c1 = (if uniDefinition pConfig = BOUNDARY_UNIFORM_RAIN_INTENSITY
                            then pCellData \<lparr> vx := dadd (vx pCellData) amount \<rparr>
                            else pCellData);
                      c2 = (if uniDefinition pConfig = BOUNDARY_UNIFORM_LOSS_RATE
                            then c1 \<lparr> vx := dmax dCellBedElev (dsub (vx c1) amount) \<rparr>
                            else c1)
                  in Some (pCellState (ulIdx := c2))))"

text \<open>
  The index that \<^verbatim>\<open>bdy_Gridded\<close> reads in the resident time series, in 64-bit unsigned
  arithmetic: the time step index is limited to \<^verbatim>\<open>TimeseriesEntries\<close>.
\<close>

definition bdy_Gridded_index ::
    "build \<Rightarrow> sBdyGriddedConfiguration \<Rightarrow> dbl \<Rightarrow> int \<Rightarrow> int \<Rightarrow> 64 word option" where
  "bdy_Gridded_index b pConfig dLclTime lIdxX lIdxY =
     (case to_ulong (dfloor (ddiv dLclTime (TimeseriesInterval pConfig))) of
        None \<Rightarrow> None
      | Some ulTimestep0 \<Rightarrow>
          (let ulTimestep = (if ulTimestep0 \<ge> TimeseriesEntries pConfig
                             then TimeseriesEntries pConfig else ulTimestep0);
               ulColumn = dfloor (ddiv (dsub (dmul (Fin (of_int lIdxX)) (Fin (DOMAIN_DELTAX b)))
                                             (GridOffsetX pConfig))
                                       (GridResolution pConfig));
               ulRow = dfloor (ddiv (dsub (dmul (Fin (of_int lIdxY)) (Fin (DOMAIN_DELTAY b)))
                                          (GridOffsetY pConfig))
                                    (GridResolution pConfig))
           in case (to_ulong ulRow, to_ulong ulColumn) of
                (Some r, Some c) \<Rightarrow>
                  Some ((GridRows pConfig * GridCols pConfig) * ulTimestep +
                        (GridCols pConfig * r) + c)
              | _ \<Rightarrow> None))"

text \<open>
  \<^verbatim>\<open>bdy_Gridded\<close> for the work-item \<open>(lIdxX, lIdxY)\<close>. The kernel receives the timestep
  and never reads it: only the hydrological time decides whether it runs.
\<close>

definition bdy_Gridded ::
    "build \<Rightarrow> sBdyGriddedConfiguration \<Rightarrow> (nat \<Rightarrow> dbl) \<Rightarrow> dbl \<Rightarrow> dbl \<Rightarrow> dbl \<Rightarrow>
     (nat \<Rightarrow> cl_double4) \<Rightarrow> (nat \<Rightarrow> dbl) \<Rightarrow> int \<Rightarrow> int \<Rightarrow> (nat \<Rightarrow> cl_double4) option" where
  "bdy_Gridded b pConfig pTimeseries dLclTime dLclRealTimestep dLclTimestep pCellState
       pCellBed lIdxX lIdxY =
     (if lIdxX \<ge> DOMAIN_COLS b - 1 \<or> lIdxY \<ge> DOMAIN_ROWS b - 1 \<or> lIdxX \<le> 0 \<or> lIdxY \<le> 0
      then Some pCellState
      else
        let ulIdx = getCellID b lIdxX lIdxY;
            pCellData = pCellState ulIdx
        in if cellDisabled pCellData then Some pCellState
           else if dlt dLclTimestep (Fin TIMESTEP_HYDROLOGICAL) then Some pCellState
           else
             case bdy_Gridded_index b pConfig dLclTime lIdxX lIdxY of
               None \<Rightarrow> None
             | Some ulBdyCell \<Rightarrow>
                 (let dRate = pTimeseries (unat ulBdyCell);
                      c1 = (if Definition pConfig = BOUNDARY_GRIDDED_RAIN_INTENSITY
                            then pCellData \<lparr> vx := dadd (vx pCellData)
                                   (dmul (ddiv dRate (Fin 3600000)) dLclTimestep) \<rparr>
                            else pCellData);
                      c2 = (if Definition pConfig = BOUNDARY_GRIDDED_MASS_FLUX
                            then c1 \<lparr> vx := dadd (vx c1)
                                   (dmul (ddiv dRate
                                      (dmul (Fin (DOMAIN_DELTAX b)) (Fin (DOMAIN_DELTAY b))))
                                      dLclTimestep) \<rparr>
                            else c1)
                  in Some (pCellState (ulIdx := c2))))"

text \<open>
  \<^verbatim>\<open>bdy_StreamingGridded\<close> for the work-item \<open>(lIdxX, lIdxY)\<close>: one grid, no time index.
\<close>

definition bdy_StreamingGridded ::
    "build \<Rightarrow> sBdyGriddedConfiguration \<Rightarrow> (nat \<Rightarrow> dbl) \<Rightarrow> dbl \<Rightarrow> dbl \<Rightarrow> dbl \<Rightarrow>
     (nat \<Rightarrow> cl_double4) \<Rightarrow> (nat \<Rightarrow> dbl) \<Rightarrow> int \<Rightarrow> int \<Rightarrow> (nat \<Rightarrow> cl_double4) option" where
  "bdy_StreamingGridded b pConfig pValues dLclTime dLclRealTimestep dLclTimestep pCellState
       pCellBed lIdxX lIdxY =
     (if lIdxX \<ge> DOMAIN_COLS b - 1 \<or> lIdxY \<ge> DOMAIN_ROWS b - 1 \<or> lIdxX \<le> 0 \<or> lIdxY \<le> 0
      then Some pCellState
      else
        let ulIdx = getCellID b lIdxX lIdxY;
            pCellData = pCellState ulIdx
        in if cellDisabled pCellData then Some pCellState
           else if dlt dLclTimestep (Fin TIMESTEP_HYDROLOGICAL) then Some pCellState
           else
             let ulColumn = dfloor (ddiv (dsub (dmul (Fin (of_int lIdxX)) (Fin (DOMAIN_DELTAX b)))
                                               (GridOffsetX pConfig))
                                         (GridResolution pConfig));
                 ulRow = dfloor (ddiv (dsub (dmul (Fin (of_int lIdxY)) (Fin (DOMAIN_DELTAY b)))
                                            (GridOffsetY pConfig))
                                      (GridResolution pConfig))
             in case (to_ulong ulRow, to_ulong ulColumn) of
                  (Some r, Some c) \<Rightarrow>
                    (let dRate = pValues (unat ((GridCols pConfig * r) + c));
                         c1 = (if Definition pConfig = BOUNDARY_GRIDDED_RAIN_INTENSITY
                               then pCellData \<lparr> vx := dadd (vx pCellData)
                                      (dmul (ddiv dRate (Fin 3600000)) dLclTimestep) \<rparr>
                               else if Definition pConfig = BOUNDARY_GRIDDED_MASS_FLUX
                               then pCellData \<lparr> vx := dadd (vx pCellData)
                                      (dmul (ddiv dRate
                                         (dmul (Fin (DOMAIN_DELTAX b)) (Fin (DOMAIN_DELTAY b))))
                                         dLclTimestep) \<rparr>
                               else pCellData)
                     in Some (pCellState (ulIdx := c1)))
                | _ \<Rightarrow> None)"

section \<open>The simple pipe boundary\<close>

fun dacos :: "dbl \<Rightarrow> dbl" where
  "dacos (Fin a) = (if - 1 \<le> a \<and> a \<le> 1 then Fin (arccos a) else NaN)"
| "dacos x = NaN"

fun dsin :: "dbl \<Rightarrow> dbl" where
  "dsin (Fin a) = Fin (sin a)"
| "dsin x = NaN"

fun dlog10 :: "dbl \<Rightarrow> dbl" where
  "dlog10 (Fin a) = (if a < 0 then NaN else if a = 0 then NInf else Fin (log 10 a))"
| "dlog10 PInf = PInf"
| "dlog10 NInf = NaN"
| "dlog10 NaN = NaN"

fun dsign :: "dbl \<Rightarrow> dbl" where
  "dsign (Fin a) = Fin (sgn a)"
| "dsign PInf = Fin 1"
| "dsign NInf = Fin (- 1)"
| "dsign NaN = Fin 0"

record sBndySPipeConfiguration =
  uiStartCellX :: "32 word"
  uiStartCellY :: "32 word"
  uiEndCellX :: "32 word"
  uiEndCellY :: "32 word"
  length_pipe :: dbl
  roughness :: dbl
  lossCoefficients :: dbl
  diameter :: dbl
  invertStart :: dbl
  invertEnd :: dbl

definition maxIterations :: nat where "maxIterations = 5000"

text \<open>The variables that the Darcy-Weisbach iteration carries from one pass to the next.\<close>

record pipeIter =
  uiIterations :: nat
  dFrictionHeadLossEst :: dbl
  dVelocity :: dbl
  dOtherHeadTerms :: dbl
  dError :: dbl

text \<open>One pass of the loop body.\<close>

definition pipeStep ::
    "sBndySPipeConfiguration \<Rightarrow> dbl \<Rightarrow> dbl \<Rightarrow> dbl \<Rightarrow> pipeIter \<Rightarrow> pipeIter" where
  "pipeStep pConfig kd dWettedDiameter dInitialFrictionHeadLoss st =
     (let n = uiIterations st + 1;
          dLastFrictionHeadLoss = dFrictionHeadLossEst st;
          hf1 = (if n \<le> 1 then dInitialFrictionHeadLoss
                 else if dgt (dFrictionHeadLossEst st) (dOtherHeadTerms st)
                 then dsub (dFrictionHeadLossEst st) (dOtherHeadTerms st)
                 else
                   let dMultiplier = (if dlt (dfabs (dError st)) (Fin (2 / 10))
                                      then Fin (2 / 1000) else Fin (2 / 10));
                       dSign = dsign (dError st)
                   in dadd (dFrictionHeadLossEst st)
                        (dmul dSign
                           (dmax (dmul (dmin (dfabs (dError st)) (dFrictionHeadLossEst st))
                                       dMultiplier)
                                 (Fin (1 / 100000)))));
          hf2 = (if dlt hf1 (Fin 0)
                 then ddiv (dmul dLastFrictionHeadLoss (Fin 2)) (Fin 3) else hf1);
          darcy_weisbach_term = dsqrt
            (ddiv (dmul (dmul (dmul (Fin 2) (Fin GRAVITY)) dWettedDiameter) hf2)
                  (length_pipe pConfig));
          v = dmul (dmul (Fin (- 2))
                      (dlog10 (dadd kd
                         (ddiv (dmul (Fin (251 / 100)) (Fin (113 / 100000000)))
                               (dmul dWettedDiameter darcy_weisbach_term)))))
                   darcy_weisbach_term;
          other = dmul (lossCoefficients pConfig) (dmul (dmul v v) (Fin GRAVITY2_R))
      in \<lparr> uiIterations = n,
            dFrictionHeadLossEst = hf2,
            dVelocity = v,
            dOtherHeadTerms = other,
            dError = dsub (dsub dInitialFrictionHeadLoss hf2) other \<rparr>)"

text \<open>The loop: at most 5000 passes, until the head balance is within 0.0001.\<close>

function pipeLoop ::
    "sBndySPipeConfiguration \<Rightarrow> dbl \<Rightarrow> dbl \<Rightarrow> dbl \<Rightarrow> pipeIter \<Rightarrow> pipeIter" where
  "pipeLoop pConfig kd dWettedDiameter dInitialFrictionHeadLoss st =
     (if uiIterations st < maxIterations \<and> dgt (dfabs (dError st)) (Fin (1 / 10000))
      then pipeLoop pConfig kd dWettedDiameter dInitialFrictionHeadLoss
             (pipeStep pConfig kd dWettedDiameter dInitialFrictionHeadLoss st)
      else st)"
  by pat_completeness auto
termination
  by (relation "measure (\<lambda>(pConfig, kd, dw, h0, st). maxIterations - uiIterations st)")
     (auto simp: pipeStep_def Let_def)

text \<open>
  The code after the loop: the discharge and the two stores. The NaN that marks a failed
  iteration is assigned to the discharge first; the next statement assigns the discharge
  again from the velocity.
\<close>

definition pipeCommit ::
    "build \<Rightarrow> dbl \<Rightarrow> dbl \<Rightarrow> pipeIter \<Rightarrow> cl_double4 \<Rightarrow> dbl \<Rightarrow> cl_double4 \<Rightarrow> dbl \<Rightarrow>
     cl_double4 \<times> cl_double4" where
  "pipeCommit b dLocalTimestep dWettedDiameter st pStartData dStartBed pEndData dEndBed =
     (let dPipeDischarge =
            (if uiIterations st \<ge> maxIterations \<or> dgt (dfabs (dError st)) (Fin (1 / 10000))
             then dsqrt (Fin (- 1)) else Fin 0);
          dPipeDischarge =
            dmul (dmul (dmul (dVelocity st) (Fin PI)) (dmul dWettedDiameter (Fin (1 / 2))))
                 (dmul dWettedDiameter (Fin (1 / 2)));
          e1 = (if dlt (vx pEndData) (dadd dEndBed (Fin (VERY_SMALL b)))
                then pEndData \<lparr> vz := Fin 0, vw := Fin 0 \<rparr> else pEndData);
          dLevelChange = ddiv (dmul dPipeDischarge dLocalTimestep)
                              (dmul (Fin (DOMAIN_DELTAX b)) (Fin (DOMAIN_DELTAY b)));
          s1 = pStartData \<lparr> vx := dmax dStartBed (dsub (vx pStartData) dLevelChange) \<rparr>;
          e2 = e1 \<lparr> vx := dadd (dmax dEndBed (vx e1)) dLevelChange \<rparr>;
          s2 = (if dlt (vx s1) (dadd dStartBed (Fin (VERY_SMALL b)))
                then s1 \<lparr> vz := Fin 0, vw := Fin 0 \<rparr> else s1)
      in (s2, e2))"

text \<open>
  \<^verbatim>\<open>bdy_SimplePipe\<close>: the cell buffer after the kernel. The source declares the friction
  head loss, the velocity and the other head terms without a value; the first pass of the
  loop, which always runs, assigns each of them, and reads the old friction head loss only
  if the new estimate is negative. The model starts them as NaN.
\<close>

definition bdy_SimplePipe ::
    "build \<Rightarrow> sBndySPipeConfiguration \<Rightarrow> dbl \<Rightarrow> (nat \<Rightarrow> cl_double4) \<Rightarrow> (nat \<Rightarrow> dbl) \<Rightarrow>
     (nat \<Rightarrow> cl_double4)" where
  "bdy_SimplePipe b pConfig dLocalTimestep pCellState pCellBed =
     (if dle dLocalTimestep (Fin 0) then pCellState
      else
        let ulIdxStart = getCellID b (uint (uiStartCellX pConfig)) (uint (uiStartCellY pConfig));
            ulIdxEnd = getCellID b (uint (uiEndCellX pConfig)) (uint (uiEndCellY pConfig));
            pStartData = pCellState ulIdxStart;
            dStartBed = pCellBed ulIdxStart;
            pEndData = pCellState ulIdxEnd;
            dEndBed = pCellBed ulIdxEnd;
            dInvertStart = (if dle (invertStart pConfig) (Fin (- 9999))
                            then dStartBed else invertStart pConfig);
            dInvertEnd = (if dle (invertEnd pConfig) (Fin (- 9999))
                          then dEndBed else invertEnd pConfig);
            dPipeDepth = dsub (vx pStartData) dInvertStart
        in if dlt dPipeDepth (Fin (VERY_SMALL b)) \<or> dlt dInvertStart dStartBed
           then pCellState
           else if dle dStartBed (Fin (- 9999)) then pCellState
           else if dle dEndBed (Fin (- 9999)) then pCellState
           else
             let dProportionalDepthAngle =
                   (if dlt dPipeDepth (diameter pConfig)
                    then dmul (Fin 2)
                           (dacos (dsub (Fin 1)
                              (ddiv (dmul (Fin 2) dPipeDepth) (diameter pConfig))))
                    else dmul (Fin PI) (Fin 2));
                 dPartialShapeFactor =
                   (if dlt dPipeDepth (diameter pConfig) \<and>
                       dgt dProportionalDepthAngle (Fin 0)
                    then ddiv (dsub dProportionalDepthAngle (dsin dProportionalDepthAngle))
                              dProportionalDepthAngle
                    else Fin 1);
                 dWettedDiameter = dmul (diameter pConfig) dPartialShapeFactor;
                 dInitialFrictionHeadLoss =
                   (if dgt dPipeDepth (Fin 0)
                    then dsub
                      (dadd dInvertStart
                         (dmul (dsub (dmax dInvertStart (vx pStartData)) dInvertStart)
                               (Fin (1 / 2))))
                      (dadd dInvertEnd
                         (dmul (dsub (dmax dInvertEnd (vx pEndData)) dInvertEnd)
                               (Fin (1 / 2))))
                    else Fin 0)
             in if dle dInitialFrictionHeadLoss (Fin 0) then pCellState
                else
                  let kd = ddiv (dmul (roughness pConfig) (Fin (1 / 1000)))
                                (dmul (Fin (371 / 100)) dWettedDiameter);
                      st = pipeLoop pConfig kd dWettedDiameter dInitialFrictionHeadLoss
                             \<lparr> uiIterations = 0, dFrictionHeadLossEst = NaN,
                               dVelocity = NaN, dOtherHeadTerms = NaN,
                               dError = Fin (99999999999 / 10) \<rparr>
                  in case pipeCommit b dLocalTimestep dWettedDiameter st
                            pStartData dStartBed pEndData dEndBed of
                       (s, e) \<Rightarrow> (pCellState (ulIdxStart := s)) (ulIdxEnd := e))"

section \<open>Double arithmetic with rounding\<close>

text \<open>
  The definitions above compute exactly on finite values. The kernels compute in IEEE 754
  binary64: each operation returns the double nearest to the exact result, ties going to
  the even significand. Where a property of a kernel depends on this rounding, the kernel
  is modelled a second time with the operations below, under the name of the source
  function with the suffix \<open>_fl\<close>.

  \<open>rhe\<close> rounds a real to the nearest integer, ties to even. \<open>ilog2 x\<close> is the integer
  \<open>e\<close> with \<open>2\<^sup>e \<le> x < 2\<^sup>e\<^sup>+\<^sup>1\<close> for \<open>x > 0\<close>. \<open>ulp x\<close> is the distance between the doubles
  around \<open>x\<close>: a significand of 53 bits, and the exponent -1022 for the subnormal numbers.
  \<open>round64\<close> rounds a real to a double; a result of magnitude \<open>2\<^sup>1\<^sup>0\<^sup>2\<^sup>4\<close> or more overflows
  to an infinity. The sign of a zero is not modelled, and each operation is rounded on its
  own: a product and a sum are not fused.
\<close>

definition rhe :: "real \<Rightarrow> int" where
  "rhe y = (let f = \<lfloor>y\<rfloor> in
            if y - of_int f < 1 / 2 then f
            else if 1 / 2 < y - of_int f then f + 1
            else if even f then f else f + 1)"

definition ilog2 :: "real \<Rightarrow> int" where
  "ilog2 x = (if 1 \<le> x then int (floorlog 2 (nat \<lfloor>x\<rfloor>)) - 1
              else - int (floorlog 2 (nat (\<lceil>1 / x\<rceil> - 1))))"

definition expo :: "real \<Rightarrow> int" where
  "expo x = max (ilog2 \<bar>x\<bar>) (- 1022)"

definition ulp :: "real \<Rightarrow> real" where
  "ulp x = 2 powi (expo x - 52)"

definition rnd :: "real \<Rightarrow> real" where
  "rnd x = of_int (rhe (x / ulp x)) * ulp x"

definition cut :: "real \<Rightarrow> dbl" where
  "cut y = (if 2 ^ 1024 \<le> y then PInf else if y \<le> - (2 ^ 1024) then NInf else Fin y)"

definition round64 :: "real \<Rightarrow> dbl" where
  "round64 x = cut (rnd x)"

text \<open>The result of an operation, rounded; an infinity or a NaN is kept.\<close>

fun rd :: "dbl \<Rightarrow> dbl" where
  "rd (Fin a) = round64 a"
| "rd PInf = PInf"
| "rd NInf = NInf"
| "rd NaN = NaN"

definition fl_add :: "dbl \<Rightarrow> dbl \<Rightarrow> dbl" where
  "fl_add x y = rd (dadd x y)"

definition fl_sub :: "dbl \<Rightarrow> dbl \<Rightarrow> dbl" where
  "fl_sub x y = rd (dsub x y)"

definition fl_mul :: "dbl \<Rightarrow> dbl \<Rightarrow> dbl" where
  "fl_mul x y = rd (dmul x y)"

definition fl_div :: "dbl \<Rightarrow> dbl \<Rightarrow> dbl" where
  "fl_div x y = rd (ddiv x y)"

definition fl_sqrt :: "dbl \<Rightarrow> dbl" where
  "fl_sqrt x = rd (dsqrt x)"

text \<open>\<^verbatim>\<open>pow\<close> with a finite exponent, taken as correctly rounded.\<close>

fun fl_pow :: "dbl \<Rightarrow> dbl \<Rightarrow> dbl" where
  "fl_pow x (Fin y) = rd (dpow x y)"
| "fl_pow x y = NaN"

subsection \<open>The timestep controller in double arithmetic\<close>







subsection \<open>Point-implicit friction in double arithmetic\<close>

text \<open>
  \<^verbatim>\<open>implicitFriction\<close> with each operation rounded, in the order in which C evaluates the
  expressions: products and quotients from the left, \<^verbatim>\<open>-dCf * sDepthR\<close> as
  \<^verbatim>\<open>(-dCf) * sDepthR\<close>. The exponent of \<^verbatim>\<open>pow\<close> is the double \<^verbatim>\<open>1.0 / 3.0\<close>.
\<close>

definition implicitFriction_fl ::
    "build \<Rightarrow> cl_double4 \<Rightarrow> dbl \<Rightarrow> dbl \<Rightarrow> dbl \<Rightarrow> dbl \<Rightarrow> cl_double4" where
  "implicitFriction_fl b pCellState dBedElevation dDepth dManningCoefficient dLclTimestep =
     (let z = vz pCellState;
          w = vw pCellState;
          dQ = fl_sqrt (fl_add (fl_mul z z) (fl_mul w w));
          dQi = fl_div (Fin 1) dQ
      in if dlt dQ (round64 (VERY_SMALL b)) then pCellState
         else
           let sDepthR = fl_div (Fin 1) (fl_mul dDepth dDepth);
               dCf = fl_div
                       (fl_mul (fl_mul (round64 GRAVITY) dManningCoefficient)
                               dManningCoefficient)
                       (fl_pow dDepth (fl_div (Fin 1) (Fin 3)));
               dSfx = fl_mul (fl_mul (fl_mul (dneg dCf) sDepthR) z) dQ;
               dSfy = fl_mul (fl_mul (fl_mul (dneg dCf) sDepthR) w) dQ;
               dDx = fl_add (Fin 1)
                       (fl_mul (fl_mul (fl_mul dLclTimestep (fl_mul dCf sDepthR))
                                       (fl_add (fl_mul (Fin 2) (fl_mul z z)) (fl_mul w w)))
                               dQi);
               dDy = fl_add (Fin 1)
                       (fl_mul (fl_mul (fl_mul dLclTimestep (fl_mul dCf sDepthR))
                                       (fl_add (fl_mul z z) (fl_mul (Fin 2) (fl_mul w w))))
                               dQi);
               dFx = fl_div dSfx dDx;
               dFy = fl_div dSfy dDy;
               dLclTimestepR = fl_div (Fin 1) dLclTimestep;
               dFx' = (if dge z (Fin 0) then dfmax dFx (fl_mul (dneg z) dLclTimestepR)
                       else dfmin dFx (fl_mul (dneg z) dLclTimestepR));
               dFy' = (if dge w (Fin 0) then dfmax dFy (fl_mul (dneg w) dLclTimestepR)
                       else dfmin dFy (fl_mul (dneg w) dLclTimestepR))
           in pCellState \<lparr> vz := fl_add z (fl_mul dLclTimestep dFx'),
                            vw := fl_add w (fl_mul dLclTimestep dFy') \<rparr>)"

section \<open>Concrete configurations\<close>

text \<open>
  A build with square cells of 1 m, Courant number 0.5 and two reduction work-groups, and
  the same build with cells of 2 m by 1 m.
\<close>

definition build0 :: build where
  "build0 = \<lparr> VERY_SMALL = 1 / 10 ^ 14, DOMAIN_COLS = 4, DOMAIN_ROWS = 4,
     DOMAIN_DELTAX = 1, DOMAIN_DELTAY = 1, DOMAIN_DELTAX_R = 1, DOMAIN_DELTAY_R = 1,
     COURANT_NUMBER = 1 / 2, SCHEME_ENDTIME = 3600, TIMESTEP_WORKERS = 2,
     TIMESTEP_DYNAMIC = True, TIMESTEP_FIXED = None, FROUDE_LIMIT = 1,
     FRICTION_IN_FLUX_KERNEL = True \<rparr>"


text \<open>A time block left behind by a sync point: the timestep is negative.\<close>

definition ts_signal :: timestate where
  "ts_signal = \<lparr> dTime = Fin 10, dTimestep = Fin (- (1 / 20)),
     dTimeHydrological = Fin (1 / 10), dTimeSync = Fin 10, dBatchTimesteps = Fin 2,
     uiBatchSuccessful = 7, uiBatchSkipped = 3 \<rparr>"





text \<open>
  A cell 1 m deep over a bed at 0 with \<open>q\<^sub>x = 1\<close> and \<open>q\<^sub>y\<close> the double nearest to
  \<open>10\<^sup>-\<^sup>1\<^sup>0\<close>.
\<close>

definition cell_shear :: cl_double4 where
  "cell_shear = \<lparr> vx = Fin 1, vy = Fin 1, vz = Fin 1,
     vw = Fin (7737125245533627 / 77371252455336267181195264) \<rparr>"

text \<open>A cell 1 m deep over a bed at 0, and a dry cell on a bed at 0.8.\<close>

definition cell_wet :: cl_double4 where
  "cell_wet = \<lparr> vx = Fin 1, vy = Fin 1, vz = Fin (1 / 2), vw = Fin 0 \<rparr>"

definition cell_step :: cl_double4 where
  "cell_step = \<lparr> vx = Fin (4 / 5), vy = Fin (4 / 5), vz = Fin 0, vw = Fin 0 \<rparr>"

text \<open>A dry cell on a bed at 0.\<close>

definition cell_dry :: cl_double4 where
  "cell_dry = \<lparr> vx = Fin 0, vy = Fin 0, vz = Fin 0, vw = Fin 0 \<rparr>"

text \<open>
  A disabled cell (level and maximum level -9999). A cell whose maximum level marks it
  disabled while it holds 1 m of flowing water over a bed at 0.
\<close>

definition cell_off :: cl_double4 where
  "cell_off = \<lparr> vx = Fin (- 9999), vy = Fin (- 9999), vz = Fin 0, vw = Fin 0 \<rparr>"

definition cell_masked :: cl_double4 where
  "cell_masked = \<lparr> vx = Fin 1, vy = Fin (- 9999), vz = Fin 1, vw = Fin 0 \<rparr>"

text \<open>
  A cell boundary with one relation that fixes the free-surface level, and its time
  series: a level of 2 m at every entry.
\<close>

definition cfg_stage :: sBdyCellConfiguration where
  "cfg_stage = \<lparr> cellTimeseriesEntries = 2, cellTimeseriesInterval = Fin 3600,
     cellTimeseriesLength = Fin 3600, RelationCount = 1,
     DefinitionDepth = BOUNDARY_DEPTH_IS_FSL,
     DefinitionDischarge = BOUNDARY_DISCHARGE_IGNORE \<rparr>"

definition ts_stage :: "nat \<Rightarrow> cl_double4" where
  "ts_stage i = \<lparr> vx = Fin (3600 * of_nat i), vy = Fin 2, vz = Fin 0, vw = Fin 0 \<rparr>"

text \<open>
  A gridded rainfall boundary: two hourly grids of one cell of 10 m. A uniform rainfall
  boundary with two hourly entries.
\<close>

definition cfg_grid :: sBdyGriddedConfiguration where
  "cfg_grid = \<lparr> TimeseriesInterval = Fin 3600, GridResolution = Fin 10,
     GridOffsetX = Fin 0, GridOffsetY = Fin 0, TimeseriesEntries = 2,
     Definition = BOUNDARY_GRIDDED_RAIN_INTENSITY, GridRows = 1, GridCols = 1 \<rparr>"

definition cfg_rain :: sBdyUniformConfiguration where
  "cfg_rain = \<lparr> uniTimeseriesEntries = 2, uniTimeseriesInterval = Fin 3600,
     uniTimeseriesLength = Fin 7200, uniDefinition = BOUNDARY_UNIFORM_RAIN_INTENSITY \<rparr>"

text \<open>
  A pipe of 100 m, 0.5 m wide, with roughness 0.5 mm and loss coefficients 1.5, both inverts
  at the bed, from cell (1, 1) to cell (2, 1). A grid that is dry but for 4 m of water in
  the cell at the upstream end. The variables of the iteration before the first pass, and
  when the loop ends, for this pipe running full under a head of 2 m.
\<close>

definition pipe0 :: sBndySPipeConfiguration where
  "pipe0 = \<lparr> uiStartCellX = 1, uiStartCellY = 1, uiEndCellX = 2, uiEndCellY = 1,
     length_pipe = Fin 100, roughness = Fin (1 / 2), lossCoefficients = Fin (3 / 2),
     diameter = Fin (1 / 2), invertStart = Fin (- 9999), invertEnd = Fin (- 9999) \<rparr>"

definition tank_full :: cl_double4 where
  "tank_full = \<lparr> vx = Fin 4, vy = Fin 4, vz = Fin 0, vw = Fin 0 \<rparr>"

definition cells_tank :: "nat \<Rightarrow> cl_double4" where
  "cells_tank = (\<lambda>i. cell_dry) (5 := tank_full)"

definition pipe_start :: pipeIter where
  "pipe_start = \<lparr> uiIterations = 0, dFrictionHeadLossEst = NaN, dVelocity = NaN,
     dOtherHeadTerms = NaN, dError = Fin (99999999999 / 10) \<rparr>"

definition pipe_end :: pipeIter where
  "pipe_end = pipeLoop pipe0 (Fin (1 / 3710)) (Fin (1 / 2)) (Fin 2) pipe_start"

text \<open>
  What one pass of the loop computes for this pipe from a friction head loss \<open>x\<close>: the
  Darcy-Weisbach term, the argument of the logarithm, the velocity and the other head
  terms, as functions on the reals. At the head loss \<open>pipe_xs\<close> the argument of the
  logarithm is 1 and the velocity 0.
\<close>

definition pipe_dw :: "real \<Rightarrow> real" where
  "pipe_dw x = sqrt (2 * GRAVITY * (1 / 2) * x / 100)"

definition pipe_arg :: "real \<Rightarrow> real" where
  "pipe_arg x = (1 / 2 * (1 / 1000)) / (371 / 100 * (1 / 2)) +
                (251 / 100 * (113 / 100000000)) / (1 / 2 * pipe_dw x)"

definition pipe_vel :: "real \<Rightarrow> real" where
  "pipe_vel x = - 2 * log 10 (pipe_arg x) * pipe_dw x"

definition pipe_oth :: "real \<Rightarrow> real" where
  "pipe_oth x = 3 / 2 * (pipe_vel x * pipe_vel x * GRAVITY2_R)"

definition pipe_xs :: real where
  "pipe_xs = 15818092437847 / 48181055617375000000000"

section \<open>Verification: special values and concrete builds\<close>

lemma build0_simps:
  "VERY_SMALL build0 = 1 / 10 ^ 14" "DOMAIN_COLS build0 = 4" "DOMAIN_ROWS build0 = 4"
  "DOMAIN_DELTAX build0 = 1" "DOMAIN_DELTAY build0 = 1"
  "DOMAIN_DELTAX_R build0 = 1" "DOMAIN_DELTAY_R build0 = 1"
  "COURANT_NUMBER build0 = 1 / 2" "SCHEME_ENDTIME build0 = 3600"
  "TIMESTEP_WORKERS build0 = 2" "TIMESTEP_DYNAMIC build0" "TIMESTEP_FIXED build0 = None"
  "FROUDE_LIMIT build0 = 1" "FRICTION_IN_FLUX_KERNEL build0"
  by (simp_all add: build0_def)


section \<open>Verification: the timestep controller\<close>


lemmas controller_defs =
  tst_Advance_Normal_def Let_def candidateTimestep_def dynamicTimestep_def
  imposeMinimum_def syncLimit_def capTimestep_def dfmax_def dfmin_def dgt_def dge_def
  dsub_def dbool_def TIMESTEP_START_MINIMUM_def TIMESTEP_MINIMUM_def
  TIMESTEP_EARLY_LIMIT_def TIMESTEP_MAXIMUM_def TIMESTEP_EARLY_LIMIT_DURATION_def
  TIMESTEP_START_MINIMUM_DURATION_def TIMESTEP_HYDROLOGICAL_def


lemma dfmax_zero_nonneg: "dle (Fin 0) (dfmax (Fin 0) x)"
  by (cases x) (auto simp: dfmax_def)




lemma advanced_time_cases:
  assumes "dle (Fin 0) d"
  shows "(\<exists>r. t \<le> r \<and> dadd (Fin t) d = Fin r) \<or> dadd (Fin t) d = PInf"
  using assms by (cases d) auto

lemma tst_Advance_Normal_dTime:
  "dTime (tst_Advance_Normal b W s) = dadd (dTime s) (dfmax (Fin 0) (dTimestep s))"
  by (simp add: tst_Advance_Normal_def Let_def)

lemma dfmax_zero_nonpos: "dle x (Fin 0) \<Longrightarrow> dfmax (Fin 0) x = Fin 0"
  by (cases x) (auto simp: dfmax_def)

text \<open>
  Claim C9. \<^verbatim>\<open>tst_Advance_Normal\<close> advances the clocks by \<open>fmax(0, \<Delta>t)\<close>: for every
  incoming timestep (negative, infinite or NaN included) and every finite time and batch
  sum, the committed time and the committed batch sum are not below the old ones, and an
  incoming timestep \<open>\<Delta>t \<le> 0\<close> increments the skipped counter and leaves the successful
  counter alone.
\<close>

theorem tst_Advance_Normal_clocks:
  assumes "dTime s = Fin t" and "dBatchTimesteps s = Fin bt"
  shows "dTime (tst_Advance_Normal b W s) = dadd (dTime s) (dfmax (Fin 0) (dTimestep s)) \<and>
         dle (dTime s) (dTime (tst_Advance_Normal b W s)) \<and>
         dBatchTimesteps (tst_Advance_Normal b W s) =
           dadd (dBatchTimesteps s) (dfmax (Fin 0) (dTimestep s)) \<and>
         dle (dBatchTimesteps s) (dBatchTimesteps (tst_Advance_Normal b W s)) \<and>
         (dle (dTimestep s) (Fin 0) \<longrightarrow>
            uiBatchSkipped (tst_Advance_Normal b W s) = uiBatchSkipped s + 1 \<and>
            uiBatchSuccessful (tst_Advance_Normal b W s) = uiBatchSuccessful s)"
proof -
  have bt: "dBatchTimesteps (tst_Advance_Normal b W s) =
            dadd (dBatchTimesteps s) (dfmax (Fin 0) (dTimestep s))"
    by (simp add: tst_Advance_Normal_def Let_def)
  have c: "dle (dTimestep s) (Fin 0) \<Longrightarrow>
            uiBatchSkipped (tst_Advance_Normal b W s) = uiBatchSkipped s + 1 \<and>
            uiBatchSuccessful (tst_Advance_Normal b W s) = uiBatchSuccessful s"
    by (simp add: tst_Advance_Normal_def Let_def dfmax_zero_nonpos dgt_def)
  have mono: "dle (Fin x) (dadd (Fin x) (dfmax (Fin 0) (dTimestep s)))" for x
    using advanced_time_cases [OF dfmax_zero_nonneg, of x "dTimestep s"] by auto
  from tst_Advance_Normal_dTime [of b W s] bt c assms mono show ?thesis
    by simp
qed

text \<open>
  The time block left behind by a sync point carries \<open>\<Delta>t = -0.05\<close>: the kernel keeps
  \<open>t = 10\<close> and the batch sum, and counts the step as skipped.
\<close>

theorem tst_Advance_Normal_clocks_witness:
  "dTime ts_signal = Fin 10 \<and> dBatchTimesteps ts_signal = Fin 2 \<and>
   dle (dTimestep ts_signal) (Fin 0) \<and>
   dTime (tst_Advance_Normal build0 (\<lambda>i. Fin 5) ts_signal) = Fin 10 \<and>
   dBatchTimesteps (tst_Advance_Normal build0 (\<lambda>i. Fin 5) ts_signal) = Fin 2 \<and>
   uiBatchSkipped (tst_Advance_Normal build0 (\<lambda>i. Fin 5) ts_signal) = 4 \<and>
   uiBatchSuccessful (tst_Advance_Normal build0 (\<lambda>i. Fin 5) ts_signal) = 7"
  using tst_Advance_Normal_clocks [of ts_signal 10 2 build0 "\<lambda>i. Fin 5"]
  by (simp add: ts_signal_def dfmax_def)

section \<open>Verification: interface reconstruction\<close>

lemma dfmax_zero_right_nonneg: "dle (Fin 0) (dfmax x (Fin 0))"
  by (cases x) (auto simp: dfmax_def)

lemma keeps_aux:
  "S0 (if c then l \<lparr> S5 := x \<rparr> else l) = S0 l"
  "S1 (if c then l \<lparr> S5 := x \<rparr> else l) = S1 l"
  "S2 (if c then l \<lparr> S5 := x \<rparr> else l) = S2 l"
  "S3 (if c then l \<lparr> S5 := x \<rparr> else l) = S3 l"
  "S6 (if c then l \<lparr> S5 := x \<rparr> else l) = S6 l"
  "S0 (if c then l \<lparr> S4 := x \<rparr> else l) = S0 l"
  "S1 (if c then l \<lparr> S4 := x \<rparr> else l) = S1 l"
  "S2 (if c then l \<lparr> S4 := x \<rparr> else l) = S2 l"
  "S3 (if c then l \<lparr> S4 := x \<rparr> else l) = S3 l"
  "S6 (if c then l \<lparr> S4 := x \<rparr> else l) = S6 l"
  by simp_all

lemma stoppingConditions_left:
  "S0 (fst (snd (stoppingConditions b d pl pr l r))) = S0 l"
  "S1 (fst (snd (stoppingConditions b d pl pr l r))) = S1 l"
  "S2 (fst (snd (stoppingConditions b d pl pr l r))) = S2 l"
  "S3 (fst (snd (stoppingConditions b d pl pr l r))) = S3 l"
  "S6 (fst (snd (stoppingConditions b d pl pr l r))) = S6 l"
  by (simp_all add: stoppingConditions_def Let_def keeps_aux)

lemma stoppingConditions_right:
  "S0 (snd (snd (stoppingConditions b d pl pr l r))) = S0 r"
  "S1 (snd (snd (stoppingConditions b d pl pr l r))) = S1 r"
  "S2 (snd (snd (stoppingConditions b d pl pr l r))) = S2 r"
  "S3 (snd (snd (stoppingConditions b d pl pr l r))) = S3 r"
  "S6 (snd (snd (stoppingConditions b d pl pr l r))) = S6 r"
  by (simp_all add: stoppingConditions_def Let_def keeps_aux)

lemma stoppingConditions_keeps:
  assumes "stoppingConditions b d pl pr l r = (s, l', r')"
  shows "S0 l' = S0 l \<and> S1 l' = S1 l \<and> S2 l' = S2 l \<and> S3 l' = S3 l \<and> S6 l' = S6 l \<and>
   S0 r' = S0 r \<and> S1 r' = S1 r \<and> S2 r' = S2 r \<and> S3 r' = S3 r \<and> S6 r' = S6 r"
  using stoppingConditions_left [of b d pl pr l r] stoppingConditions_right [of b d pl pr l r]
  unfolding assms by simp

text \<open>
  Claim C7. For every pair of cell states, finite bed elevations and every direction
  value, \<^verbatim>\<open>reconstructInterface\<close> returns on both sides the depth
  \<open>fmax(\<eta> - z\<^sub>b\<^sup>*, 0)\<close> with \<open>z\<^sub>b\<^sup>* = max(z\<^sub>b\<^sub>L, z\<^sub>b\<^sub>R)\<close>, which is never negative (nor
  NaN); the free-surface level is that depth plus \<open>z\<^sub>b\<^sup>*\<close>, lowered by the vertical shift
  like the bed; the discharges are that depth times the velocities computed before the
  reconstruction.
\<close>

theorem reconstructInterface_depths:
  "case reconstructInterface b pStateLeft (Fin zl) pStateRight (Fin zr) ucDirection of
     (ucStop, l, r) \<Rightarrow>
       (let zmax = Fin (max zl zr);
            shift = dfmax (dsub zmax
                      (vx (if ucDirection < DOMAIN_DIR_S then pStateLeft else pStateRight)))
                      (Fin 0);
            hl = dsub (vx pStateLeft) (Fin zl);
            hr = dsub (vx pStateRight) (Fin zr);
            ul = (if dlt hl (Fin (VERY_SMALL b)) then Fin 0 else ddiv (vz pStateLeft) hl);
            vl = (if dlt hl (Fin (VERY_SMALL b)) then Fin 0 else ddiv (vw pStateLeft) hl);
            ur = (if dlt hr (Fin (VERY_SMALL b)) then Fin 0 else ddiv (vz pStateRight) hr);
            vr = (if dlt hr (Fin (VERY_SMALL b)) then Fin 0 else ddiv (vw pStateRight) hr)
        in S1 l = dfmax (dsub (vx pStateLeft) zmax) (Fin 0) \<and> dle (Fin 0) (S1 l) \<and>
           S1 r = dfmax (dsub (vx pStateRight) zmax) (Fin 0) \<and> dle (Fin 0) (S1 r) \<and>
           S0 l = dsub (dadd (S1 l) zmax) shift \<and>
           S0 r = dsub (dadd (S1 r) zmax) shift \<and>
           S6 l = dsub zmax shift \<and> S6 r = dsub zmax shift \<and>
           S2 l = dmul (S1 l) ul \<and> S3 l = dmul (S1 l) vl \<and>
           S2 r = dmul (S1 r) ur \<and> S3 r = dmul (S1 r) vr)"
proof -
  define l1 where "l1 = adjustDepth (initialState b pStateLeft (Fin zl)) (vx pStateLeft) (Fin (max zl zr))"
  define r1 where "r1 = adjustDepth (initialState b pStateRight (Fin zr)) (vx pStateRight) (Fin (max zl zr))"
  obtain s l2 r2 where sc: "stoppingConditions b ucDirection pStateLeft pStateRight l1 r1 = (s, l2, r2)"
    by (cases "stoppingConditions b ucDirection pStateLeft pStateRight l1 r1") auto
  note keep = stoppingConditions_keeps [OF sc]
  have zmax: "(if dgt (Fin zl) (Fin zr) then Fin zl else Fin zr) = Fin (max zl zr)"
    by (simp add: dgt_def max_def)
  have s6: "S6 (initialState b p z) = z" for p z
    by (simp add: initialState_def Let_def)
  have rec: "reconstructInterface b pStateLeft (Fin zl) pStateRight (Fin zr) ucDirection =
     (s,
      l2 \<lparr> S6 := dsub (Fin (max zl zr)) (dfmax (dsub (Fin (max zl zr))
               (vx (if ucDirection < DOMAIN_DIR_S then pStateLeft else pStateRight))) (Fin 0)),
            S0 := dsub (S0 l2) (dfmax (dsub (Fin (max zl zr))
               (vx (if ucDirection < DOMAIN_DIR_S then pStateLeft else pStateRight))) (Fin 0)) \<rparr>,
      r2 \<lparr> S6 := dsub (Fin (max zl zr)) (dfmax (dsub (Fin (max zl zr))
               (vx (if ucDirection < DOMAIN_DIR_S then pStateLeft else pStateRight))) (Fin 0)),
            S0 := dsub (S0 r2) (dfmax (dsub (Fin (max zl zr))
               (vx (if ucDirection < DOMAIN_DIR_S then pStateLeft else pStateRight))) (Fin 0)) \<rparr>)"
    unfolding reconstructInterface_def Let_def s6 zmax l1_def [symmetric] r1_def [symmetric] sc
    by simp
  have l1: "S1 l1 = dfmax (dsub (vx pStateLeft) (Fin (max zl zr))) (Fin 0)"
      "S0 l1 = dadd (S1 l1) (Fin (max zl zr))"
      "S2 l1 = dmul (S1 l1) (S4 (initialState b pStateLeft (Fin zl)))"
      "S3 l1 = dmul (S1 l1) (S5 (initialState b pStateLeft (Fin zl)))"
    by (simp_all add: l1_def adjustDepth_def Let_def)
  have r1: "S1 r1 = dfmax (dsub (vx pStateRight) (Fin (max zl zr))) (Fin 0)"
      "S0 r1 = dadd (S1 r1) (Fin (max zl zr))"
      "S2 r1 = dmul (S1 r1) (S4 (initialState b pStateRight (Fin zr)))"
      "S3 r1 = dmul (S1 r1) (S5 (initialState b pStateRight (Fin zr)))"
    by (simp_all add: r1_def adjustDepth_def Let_def)
  have uv: "S4 (initialState b p z) =
              (if dlt (dsub (vx p) z) (Fin (VERY_SMALL b)) then Fin 0
               else ddiv (vz p) (dsub (vx p) z))"
           "S5 (initialState b p z) =
              (if dlt (dsub (vx p) z) (Fin (VERY_SMALL b)) then Fin 0
               else ddiv (vw p) (dsub (vx p) z))" for p z
    by (simp_all add: initialState_def Let_def)
  show ?thesis
    unfolding rec Let_def
    using keep l1 r1
    by (simp add: uv dfmax_zero_right_nonneg del: dlt.simps dle.simps)
qed

text \<open>
  A cell 1 m deep next to a dry cell on a step of 0.8 m, looking east: the depths are
  0.2 and 0, the level at the interface stays 1 and the discharge 0.5 becomes 0.1.
\<close>

theorem reconstructInterface_depths_witness:
  "case reconstructInterface build0 cell_wet (Fin 0) cell_step (Fin (4 / 5)) DOMAIN_DIR_E of
     (ucStop, l, r) \<Rightarrow>
       S1 l = Fin (1 / 5) \<and> S1 r = Fin 0 \<and> S0 l = Fin 1 \<and> S0 r = Fin (4 / 5) \<and>
       S6 l = Fin (4 / 5) \<and> S2 l = Fin (1 / 10) \<and> S3 l = Fin 0 \<and> S2 r = Fin 0"
  using reconstructInterface_depths
          [where b = build0 and pStateLeft = cell_wet and zl = 0 and
             pStateRight = cell_step and zr = "4 / 5" and ucDirection = DOMAIN_DIR_E]
  by (simp add: Let_def cell_wet_def cell_step_def build0_simps dfmax_def dsub_def
        DOMAIN_DIR_E_def DOMAIN_DIR_S_def split: prod.splits)

section \<open>Verification: the scheme kernels\<close>

lemma dgt_not_dle: "dgt x (Fin 0) \<Longrightarrow> \<not> dle x (Fin 0)"
  by (cases x) (auto simp: dgt_def)

lemma dryCount_all:
  assumes "dlt (dsub zC bC) (Fin (VERY_SMALL b))" "dlt (dsub zN bN) (Fin (VERY_SMALL b))"
    "dlt (dsub zE bE) (Fin (VERY_SMALL b))" "dlt (dsub zS bS) (Fin (VERY_SMALL b))"
    "dlt (dsub zW bW) (Fin (VERY_SMALL b))"
  shows "dryCount b zC bC zN bN zE bE zS bS zW bW = 5"
  using assms by (simp add: dryCount_def)

lemma grid0:
  "getCellID build0 1 1 = 5"
  "getNeighbourByIndices build0 1 1 DOMAIN_DIR_N = 9"
  "getNeighbourByIndices build0 1 1 DOMAIN_DIR_E = 6"
  "getNeighbourByIndices build0 1 1 DOMAIN_DIR_S = 1"
  "getNeighbourByIndices build0 1 1 DOMAIN_DIR_W = 4"
  by (simp_all add: getCellID_def getNeighbourByIndices_def Let_def build0_simps
        DOMAIN_DIR_N_def DOMAIN_DIR_E_def DOMAIN_DIR_S_def DOMAIN_DIR_W_def)

text \<open>
  Claim C10. In both scheme kernels without cache, for an interior work-item with
  \<open>\<Delta>t > 0\<close> whose cell is enabled and, like its four neighbours, dry (depth below
  \<open>VERY_SMALL\<close>), the kernel returns before its store: the destination buffer is what it
  was, whatever the source cell holds.
\<close>

theorem scheme_kernels_all_dry:
  assumes inside: "0 < lIdxX" "lIdxX < DOMAIN_COLS b - 1" "0 < lIdxY" "lIdxY < DOMAIN_ROWS b - 1"
    and dt: "dgt dLclTimestep (Fin 0)"
    and enabled: "\<not> cellDisabled (pCellStateSrc (getCellID b lIdxX lIdxY))"
    and dryC: "dlt (dsub (vx (pCellStateSrc (getCellID b lIdxX lIdxY)))
                         (dBedElevation (getCellID b lIdxX lIdxY))) (Fin (VERY_SMALL b))"
    and dryN: "dlt (dsub (vx (pCellStateSrc (getNeighbourByIndices b lIdxX lIdxY DOMAIN_DIR_N)))
                         (dBedElevation (getNeighbourByIndices b lIdxX lIdxY DOMAIN_DIR_N)))
                   (Fin (VERY_SMALL b))"
    and dryE: "dlt (dsub (vx (pCellStateSrc (getNeighbourByIndices b lIdxX lIdxY DOMAIN_DIR_E)))
                         (dBedElevation (getNeighbourByIndices b lIdxX lIdxY DOMAIN_DIR_E)))
                   (Fin (VERY_SMALL b))"
    and dryS: "dlt (dsub (vx (pCellStateSrc (getNeighbourByIndices b lIdxX lIdxY DOMAIN_DIR_S)))
                         (dBedElevation (getNeighbourByIndices b lIdxX lIdxY DOMAIN_DIR_S)))
                   (Fin (VERY_SMALL b))"
    and dryW: "dlt (dsub (vx (pCellStateSrc (getNeighbourByIndices b lIdxX lIdxY DOMAIN_DIR_W)))
                         (dBedElevation (getNeighbourByIndices b lIdxX lIdxY DOMAIN_DIR_W)))
                   (Fin (VERY_SMALL b))"
  shows "gts_cacheDisabled b dLclTimestep dBedElevation pCellStateSrc pCellStateDst dManning
           lIdxX lIdxY = pCellStateDst \<and>
         ine_cacheDisabled b dLclTimestep dBedElevation pCellStateSrc pCellStateDst dManning
           lIdxX lIdxY = pCellStateDst"
proof -
  note dc = dryCount_all [OF dryC dryN dryE dryS dryW]
  have g: "gts_cacheDisabled b dLclTimestep dBedElevation pCellStateSrc pCellStateDst dManning
           lIdxX lIdxY = pCellStateDst"
    unfolding gts_cacheDisabled_def Let_def
    using inside dgt_not_dle [OF dt] enabled dc by simp
  have i: "ine_cacheDisabled b dLclTimestep dBedElevation pCellStateSrc pCellStateDst dManning
           lIdxX lIdxY = pCellStateDst"
    unfolding ine_cacheDisabled_def Let_def
    using inside dgt_not_dle [OF dt] enabled dc by simp
  from g i show ?thesis ..
qed

text \<open>
  On the 4 by 4 grid the work-item (1, 1) with five dry cells in the source leaves the
  destination cell, which held another state, as it was.
\<close>

theorem scheme_kernels_all_dry_witness:
  "(0 :: int) < 1 \<and> 1 < DOMAIN_COLS build0 - 1 \<and> 1 < DOMAIN_ROWS build0 - 1 \<and>
   dgt (Fin (1 / 100)) (Fin 0) \<and> \<not> cellDisabled cell_dry \<and>
   dlt (dsub (vx cell_dry) (Fin 0)) (Fin (VERY_SMALL build0)) \<and>
   gts_cacheDisabled build0 (Fin (1 / 100)) (\<lambda>i. Fin 0) (\<lambda>i. cell_dry) (\<lambda>i. cell_wet)
     (\<lambda>i. Fin (3 / 100)) 1 1 (getCellID build0 1 1) = cell_wet \<and>
   ine_cacheDisabled build0 (Fin (1 / 100)) (\<lambda>i. Fin 0) (\<lambda>i. cell_dry) (\<lambda>i. cell_wet)
     (\<lambda>i. Fin (3 / 100)) 1 1 (getCellID build0 1 1) = cell_wet \<and>
   cell_wet \<noteq> cell_dry"
  using scheme_kernels_all_dry [of 1 build0 1 "Fin (1 / 100)" "\<lambda>i. cell_dry" "\<lambda>i. Fin 0"
          "\<lambda>i. cell_wet" "\<lambda>i. Fin (3 / 100)"]
  by (simp add: build0_simps cell_dry_def cell_wet_def cellDisabled_def deq_def dgt_def dsub_def)

section \<open>Verification: the guards of the kernels\<close>

text \<open>
  The kernels that test for a disabled cell copy it through or store nothing; the kernels
  that test the timestep store nothing at \<open>\<Delta>t \<le> 0\<close> (the Godunov kernel copies the
  source cell). The first pass of the pipe iteration does not read the variables the
  source leaves without a value.
\<close>

lemma gts_cacheDisabled_disabled:
  assumes "0 < lIdxX" "lIdxX < DOMAIN_COLS b - 1" "0 < lIdxY" "lIdxY < DOMAIN_ROWS b - 1"
    and "cellDisabled (pCellStateSrc (getCellID b lIdxX lIdxY))"
  shows "gts_cacheDisabled b dLclTimestep dBedElevation pCellStateSrc pCellStateDst dManning
           lIdxX lIdxY =
         pCellStateDst (getCellID b lIdxX lIdxY := pCellStateSrc (getCellID b lIdxX lIdxY))"
  using assms by (simp add: gts_cacheDisabled_def Let_def)

lemma ine_cacheDisabled_disabled:
  assumes "0 < lIdxX" "lIdxX < DOMAIN_COLS b - 1" "0 < lIdxY" "lIdxY < DOMAIN_ROWS b - 1"
    and "\<not> dle dLclTimestep (Fin 0)"
    and "cellDisabled (pCellStateSrc (getCellID b lIdxX lIdxY))"
  shows "ine_cacheDisabled b dLclTimestep dBedElevation pCellStateSrc pCellStateDst dManning
           lIdxX lIdxY =
         pCellStateDst (getCellID b lIdxX lIdxY := pCellStateSrc (getCellID b lIdxX lIdxY))"
  using assms by (simp add: ine_cacheDisabled_def Let_def)

lemma gridded_disabled:
  assumes "cellDisabled (pCellState (getCellID b lIdxX lIdxY))"
  shows "bdy_Gridded b pConfig pTimeseries t dt th pCellState pCellBed lIdxX lIdxY =
           Some pCellState"
    and "bdy_StreamingGridded b pConfig pValues t dt th pCellState pCellBed lIdxX lIdxY =
           Some pCellState"
  using assms by (simp_all add: bdy_Gridded_def bdy_StreamingGridded_def Let_def)

lemma zero_timestep_guarded:
  assumes "dle dt (Fin 0)"
  shows "bdy_Cell b cc pRelations pTimeseries t dt pCellState pCellBed lRelationID =
           Some pCellState"
    and "bdy_Uniform b cu pSeries t dt th pCellState pCellBed lIdxX lIdxY = Some pCellState"
    and "bdy_SimplePipe b cp dt pCellState pCellBed = pCellState"
    and "per_Friction b dt pCellState pCellBed pManning lIdxX lIdxY = pCellState"
    and "ine_cacheDisabled b dt pCellBed pSrc pDst pManning lIdxX lIdxY = pDst"
  using assms
  by (simp_all add: bdy_Cell_def bdy_Uniform_def bdy_SimplePipe_def per_Friction_def
        ine_cacheDisabled_def Let_def)

lemma gts_cacheDisabled_zero_timestep:
  assumes "dle dt (Fin 0)"
  shows "gts_cacheDisabled b dt pCellBed pSrc pDst pManning lIdxX lIdxY = pDst \<or>
         gts_cacheDisabled b dt pCellBed pSrc pDst pManning lIdxX lIdxY =
           pDst (getCellID b lIdxX lIdxY := pSrc (getCellID b lIdxX lIdxY))"
  using assms by (simp add: gts_cacheDisabled_def Let_def)

lemma pipeStep_first_pass:
  assumes "uiIterations st = 0" and "\<not> dlt h0 (Fin 0)"
  shows "pipeStep pConfig kd dw h0 st =
         pipeStep pConfig kd dw h0
           \<lparr> uiIterations = 0, dFrictionHeadLossEst = x, dVelocity = y,
             dOtherHeadTerms = z, dError = e \<rparr>"
  using assms by (simp add: pipeStep_def Let_def)

section \<open>Verification: the boundary kernels\<close>

lemma to_ulong_nat: "to_ulong (Fin 0) = Some 0" "to_ulong (Fin 2) = Some 2"
  by (simp_all add: to_ulong_def)

text \<open>
  Claim C8 does not hold of the kernel. \<^verbatim>\<open>bdy_Gridded\<close> limits the time step index to
  \<^verbatim>\<open>TimeseriesEntries\<close>, not to \<^verbatim>\<open>TimeseriesEntries - 1\<close>. With two grids of one cell each
  and \<open>t = 7200\<close>, the end of the series, the index is 2, and the buffer holds 2 values.
\<close>

theorem bdy_Gridded_index_overrun:
  "bdy_Gridded_index build0 cfg_grid (Fin 7200) 1 1 = Some 2 \<and>
   \<not> unat (2 :: 64 word) <
       unat (TimeseriesEntries cfg_grid) * unat (GridRows cfg_grid) * unat (GridCols cfg_grid)"
  by (simp add: bdy_Gridded_index_def Let_def cfg_grid_def build0_simps to_ulong_nat dsub_def)

text \<open>
  Claim C5 does not hold of the kernel. \<^verbatim>\<open>bdy_Gridded\<close> never reads the timestep: with
  \<open>\<Delta>t = 0\<close> and a hydrological time of 0.3 s it adds the rainfall of 36 mm/h to an
  enabled cell, whose level goes from 1 to 1.000003. \<^verbatim>\<open>bdy_Uniform\<close>, on the same input,
  tests the timestep and stores nothing.
\<close>

theorem bdy_Gridded_zero_timestep:
  "bdy_Gridded build0 cfg_grid (\<lambda>i. Fin 36) (Fin 100) (Fin 0) (Fin (3 / 10))
     (\<lambda>i. cell_wet) (\<lambda>i. Fin 0) 1 1 =
     Some ((\<lambda>i. cell_wet) (5 := cell_wet \<lparr> vx := Fin (1000003 / 1000000) \<rparr>)) \<and>
   bdy_Uniform build0 cfg_rain (\<lambda>i. (Fin 0, Fin 36)) (Fin 100) (Fin 0) (Fin (3 / 10))
     (\<lambda>i. cell_wet) (\<lambda>i. Fin 0) 1 1 = Some (\<lambda>i. cell_wet)"
  by (simp add: bdy_Gridded_def bdy_Uniform_def bdy_Gridded_index_def Let_def cfg_grid_def
        cfg_rain_def build0_simps to_ulong_nat getCellID_def cellDisabled_def deq_def dsub_def
        cell_wet_def TIMESTEP_HYDROLOGICAL_def BOUNDARY_GRIDDED_RAIN_INTENSITY_def
        BOUNDARY_GRIDDED_MASS_FLUX_def)

text \<open>
  Claim C4 does not hold of the kernels. \<^verbatim>\<open>bdy_Cell\<close> has no test for a disabled cell:
  a relation that points at the disabled cell \<open>(-9999, -9999, 0, 0)\<close> raises its level to
  the stage 2 of the time series. \<^verbatim>\<open>per_Friction\<close> has none either: a cell that its
  maximum level -9999 marks disabled, 1 m deep with \<open>q\<^sub>x = 1\<close>, leaves the kernel with a
  smaller \<open>q\<^sub>x\<close>.
\<close>

theorem bdy_Cell_disabled_cell:
  "cellDisabled cell_off \<and>
   bdy_Cell build0 cfg_stage (\<lambda>i. 5) ts_stage (Fin 100) (Fin (1 / 100))
     (\<lambda>i. cell_off) (\<lambda>i. Fin (- 9999)) 0 =
     Some ((\<lambda>i. cell_off) (5 := cell_off \<lparr> vx := Fin 2 \<rparr>)) \<and>
   cellDisabled cell_masked \<and>
   dlt (vz (per_Friction build0 (Fin 1) (\<lambda>i. cell_masked) (\<lambda>i. Fin 0) (\<lambda>i. Fin (3 / 100))
              1 1 5))
       (vz cell_masked)"
  by (simp add: bdy_Cell_def bdy_Cell_apply_def Let_def cfg_stage_def ts_stage_def
        cellDisabled_def cell_off_def cell_masked_def to_ulong_nat dge_def add4_def sub4_def
        scale4_def dsub_def dfmax_def dfmin_def per_Friction_def implicitFriction_def
        getCellID_def build0_simps dpow_def GRAVITY_def
        BOUNDARY_DEPTH_IS_FSL_def BOUNDARY_DEPTH_IS_DEPTH_def
        BOUNDARY_DISCHARGE_IGNORE_def BOUNDARY_DISCHARGE_IS_DISCHARGE_def
        BOUNDARY_DISCHARGE_IS_VELOCITY_def BOUNDARY_DISCHARGE_IS_VOLUME_def)

section \<open>Verification: the pipe iteration that does not converge\<close>

declare pipeLoop.simps [simp del]

lemma pipe_dw_pos: "0 < x \<Longrightarrow> 0 < pipe_dw x"
  by (simp add: pipe_dw_def GRAVITY_def)

lemma pipe_dw_sq: "0 \<le> x \<Longrightarrow> pipe_dw x * pipe_dw x = 196133 / 2000000 * x"
  by (simp add: pipe_dw_def GRAVITY_def)

lemma pipe_xs_pos: "0 < pipe_xs"
  by (simp add: pipe_xs_def)

lemma pipe_dw_xs: "pipe_dw pipe_xs = 28363 / 5000000000 * (3710 / 3709)"
proof -
  have "pipe_dw pipe_xs = sqrt ((28363 / 5000000000 * (3710 / 3709))\<^sup>2)"
    unfolding pipe_dw_def pipe_xs_def GRAVITY_def
    by (rule arg_cong [where f = sqrt]) (simp add: power2_eq_square)
  then show ?thesis by simp
qed

lemma pipe_dw_strict: "x < y \<Longrightarrow> pipe_dw x < pipe_dw y"
  by (simp add: pipe_dw_def GRAVITY_def)

lemma pipe_arg_eq: "pipe_arg x = 1 / 3710 + (28363 / 5000000000) / pipe_dw x"
  by (simp add: pipe_arg_def)

lemma pipe_arg_lt_1:
  assumes "pipe_xs < x"
  shows "pipe_arg x < 1"
proof -
  have d: "28363 / 5000000000 * (3710 / 3709) < pipe_dw x"
    using pipe_dw_strict [OF assms] by (simp add: pipe_dw_xs)
  then have p: "0 < pipe_dw x" by linarith
  have "(28363 / 5000000000) / pipe_dw x < 3709 / 3710"
    using d p by (simp add: field_simps)
  then show ?thesis by (simp add: pipe_arg_eq)
qed

lemma pipe_arg_gt:
  assumes "0 < x"
  shows "1 / 3710 < pipe_arg x"
  using pipe_dw_pos [OF assms] by (simp add: pipe_arg_eq)

text \<open>Bounds on the decimal logarithm from comparisons of integer powers.\<close>

lemma powr_ten_rat: "((10::real) powr (real p / real (Suc q))) ^ Suc q = 10 ^ p"
proof -
  have pos: "0 < (10::real) powr (real p / real (Suc q))"
    by simp
  have "((10::real) powr (real p / real (Suc q))) ^ Suc q =
        (10 powr (real p / real (Suc q))) powr real (Suc q)"
    by (simp only: powr_realpow [OF pos])
  also have "\<dots> = 10 powr real p"
    by (simp add: powr_powr)
  also have "\<dots> = 10 ^ p"
    by (simp add: powr_realpow)
  finally show ?thesis .
qed

lemma log_ge_ratI:
  assumes "0 < y" and "1 \<le> y ^ Suc q * 10 ^ p"
  shows "- (real p / real (Suc q)) \<le> log 10 y"
proof -
  let ?t = "(10::real) powr (real p / real (Suc q))"
  have t: "0 < ?t" by simp
  have "(1 / ?t) ^ Suc q = 1 / 10 ^ p"
    by (simp only: power_divide power_one powr_ten_rat)
  also have "\<dots> \<le> y ^ Suc q"
    using assms(2) by (simp add: field_simps)
  finally have "1 / ?t \<le> y"
    by (rule power_le_imp_le_base) (simp add: less_imp_le [OF assms(1)])
  then have "10 powr (- (real p / real (Suc q))) \<le> y"
    by (simp add: powr_minus field_simps)
  then show ?thesis
    using assms(1) by (simp add: le_log_iff)
qed

lemma log_le_ratI:
  assumes "0 < y" and "y ^ Suc q * 10 ^ p \<le> 1"
  shows "log 10 y \<le> - (real p / real (Suc q))"
proof -
  let ?t = "(10::real) powr (real p / real (Suc q))"
  have t: "0 < ?t" by simp
  have "y ^ Suc q \<le> 1 / 10 ^ p"
    using assms(2) by (simp add: field_simps)
  also have "\<dots> = (1 / ?t) ^ Suc q"
    by (simp only: power_divide power_one powr_ten_rat)
  finally have "y \<le> 1 / ?t"
    by (rule power_le_imp_le_base) simp
  then have "y \<le> 10 powr (- (real p / real (Suc q)))"
    by (simp add: powr_minus field_simps)
  then show ?thesis
    using assms(1) by (simp add: log_le_iff)
qed

lemma ln_10_ge_2: "2 \<le> ln (10::real)"
proof -
  have "exp (2::real) = exp 1 * exp 1"
    by (simp add: exp_add [symmetric])
  also have "\<dots> \<le> 3 * 3"
    by (intro mult_mono exp_le) simp_all
  finally have "exp (2::real) \<le> 10" by simp
  then have "ln (exp (2::real)) \<le> ln 10"
    by (subst ln_le_cancel_iff) simp_all
  then show ?thesis by simp
qed

lemma log_10_le_half:
  assumes "1 \<le> r"
  shows "log 10 r \<le> (r - 1) / 2"
proof -
  have "ln r \<le> r - 1"
    using assms by (intro ln_le_minus_one) simp
  moreover have "0 \<le> ln r" using assms by simp
  ultimately have "ln r / ln 10 \<le> (r - 1) / 2"
    using ln_10_ge_2 by (intro frac_le) simp_all
  then show ?thesis by (simp add: log_def)
qed

lemma pipe_log_bounds:
  assumes "pipe_xs < x"
  shows "- (18 / 5) \<le> log 10 (pipe_arg x)" and "log 10 (pipe_arg x) \<le> 0"
proof -
  have x: "0 < x" using assms pipe_xs_pos by linarith
  have a: "1 / 3710 < pipe_arg x" by (rule pipe_arg_gt [OF x])
  have "- (real 18 / real (Suc 4)) \<le> log 10 (1 / 3710)"
    by (rule log_ge_ratI) (simp_all add: power_divide)
  also have "\<dots> \<le> log 10 (pipe_arg x)"
    using a by (subst log_le_cancel_iff) simp_all
  finally show "- (18 / 5) \<le> log 10 (pipe_arg x)" by simp
  have "0 < pipe_arg x" using a by simp
  then show "log 10 (pipe_arg x) \<le> 0"
    using pipe_arg_lt_1 [OF assms] by simp
qed

lemma pipe_oth_eq:
  assumes "0 \<le> x"
  shows "pipe_oth x =
         3000000000000000000087987 / 10 ^ 26 * (log 10 (pipe_arg x))\<^sup>2 * x"
proof -
  have "pipe_oth x =
        3 / 2 * (4 * (log 10 (pipe_arg x))\<^sup>2 * (pipe_dw x * pipe_dw x) * GRAVITY2_R)"
    by (simp add: pipe_oth_def pipe_vel_def power2_eq_square)
  also have "\<dots> = 3000000000000000000087987 / 10 ^ 26 * (log 10 (pipe_arg x))\<^sup>2 * x"
    by (simp add: pipe_dw_sq [OF assms] GRAVITY2_R_def)
  finally show ?thesis .
qed

lemma pipe_oth_le:
  assumes "pipe_xs < x"
  shows "0 \<le> pipe_oth x" and "pipe_oth x \<le> 39 / 100 * x"
proof -
  have x: "0 < x" using assms pipe_xs_pos by linarith
  let ?L = "log 10 (pipe_arg x)"
  have "\<bar>?L\<bar> \<le> 18 / 5"
    using pipe_log_bounds [OF assms] by simp
  then have "?L\<^sup>2 \<le> (18 / 5)\<^sup>2"
    by (subst abs_le_square_iff [symmetric]) simp
  then have sq: "?L\<^sup>2 \<le> 324 / 25" by (simp add: power2_eq_square)
  have e: "pipe_oth x = 3000000000000000000087987 / 10 ^ 26 * ?L\<^sup>2 * x"
    by (rule pipe_oth_eq) (simp add: less_imp_le [OF x])
  show "0 \<le> pipe_oth x"
    unfolding e using x by simp
  have "3000000000000000000087987 / 10 ^ 26 * ?L\<^sup>2 * x \<le>
        3000000000000000000087987 / 10 ^ 26 * (324 / 25) * x"
    using sq x by (intro mult_right_mono mult_left_mono) simp_all
  also have "\<dots> \<le> 39 / 100 * x"
    using x by simp
  finally show "pipe_oth x \<le> 39 / 100 * x"
    unfolding e .
qed

lemma pipe_log_near:
  assumes "pipe_xs < x"
  shows "- ((x / pipe_xs - 1) / 4) \<le> log 10 (pipe_arg x)"
proof -
  define r where "r = x / pipe_xs"
  have r: "1 < r"
    using assms pipe_xs_pos by (simp add: r_def)
  have xr: "x = pipe_xs * r"
    using pipe_xs_pos by (simp add: r_def)
  have s: "1 \<le> sqrt r" using r by simp
  have "2 * GRAVITY * (1 / 2) * (pipe_xs * r) / 100 =
        2 * GRAVITY * (1 / 2) * pipe_xs / 100 * r"
    by simp
  then have "pipe_dw x = pipe_dw pipe_xs * sqrt r"
    unfolding pipe_dw_def xr by (simp only: real_sqrt_mult)
  then have dw: "pipe_dw x = 28363 / 5000000000 * (3710 / 3709) * sqrt r"
    by (simp only: pipe_dw_xs)
  have "pipe_arg x = 1 / 3710 + 3709 / 3710 / sqrt r"
    unfolding pipe_arg_eq dw by simp
  also have "\<dots> \<ge> 1 / sqrt r"
    using s by (simp add: field_simps)
  finally have ge: "1 / sqrt r \<le> pipe_arg x" .
  have "log 10 (1 / sqrt r) = - (log 10 r / 2)"
    using r by (simp add: log_def ln_div ln_sqrt)
  moreover have "log 10 (1 / sqrt r) \<le> log 10 (pipe_arg x)"
  proof -
    have "0 < x" using assms pipe_xs_pos by linarith
    then have "0 < pipe_arg x" using pipe_arg_gt [of x] by simp
    then show ?thesis
      using ge r by (subst log_le_cancel_iff) simp_all
  qed
  moreover have "log 10 r \<le> (r - 1) / 2"
    by (rule log_10_le_half) (simp add: less_imp_le [OF r])
  ultimately have "- ((r - 1) / 4) \<le> log 10 (pipe_arg x)"
    by linarith
  then show ?thesis
    by (simp only: r_def)
qed

lemma pipe_oth_gap:
  assumes "pipe_xs < x"
  shows "pipe_oth x < x - pipe_xs"
proof (cases "2 * pipe_xs \<le> x")
  case True
  have "pipe_oth x \<le> 39 / 100 * x" by (rule pipe_oth_le [OF assms])
  also have "\<dots> < x - pipe_xs"
    using True pipe_xs_pos by linarith
  finally show ?thesis .
next
  case False
  define t where "t = x / pipe_xs - 1"
  have t: "0 < t" "t < 1"
    using assms False pipe_xs_pos by (simp_all add: t_def field_simps)
  have x: "x = pipe_xs * (1 + t)"
    using pipe_xs_pos by (simp add: t_def field_simps)
  let ?L = "log 10 (pipe_arg x)"
  have "\<bar>?L\<bar> \<le> t / 4"
    using pipe_log_near [OF assms] pipe_log_bounds(2) [OF assms]
    unfolding t_def by (intro abs_leI) linarith+
  then have "?L\<^sup>2 \<le> (t / 4)\<^sup>2"
    using t by (subst abs_le_square_iff [symmetric]) simp
  then have sq: "?L\<^sup>2 \<le> t * t / 16" by (simp add: power2_eq_square)
  have x0: "0 \<le> x" using assms pipe_xs_pos by linarith
  have "pipe_oth x = 3000000000000000000087987 / 10 ^ 26 * ?L\<^sup>2 * x"
    by (rule pipe_oth_eq [OF x0])
  also have "\<dots> \<le> 3000000000000000000087987 / 10 ^ 26 * (t * t / 16) * x"
    using sq x0 by (intro mult_right_mono mult_left_mono) simp_all
  also have "\<dots> = pipe_xs * t * (3000000000000000000087987 / 10 ^ 26 * (t * (1 + t)) / 16)"
    by (simp add: x)
  also have "\<dots> < pipe_xs * t * 1"
  proof (rule mult_strict_left_mono)
    have "t * (1 + t) < 1 * (1 + 1)"
      using t by (intro mult_strict_mono) simp_all
    then show "3000000000000000000087987 / 10 ^ 26 * (t * (1 + t)) / 16 < 1"
      by simp
    show "0 < pipe_xs * t" using t pipe_xs_pos by simp
  qed
  also have "\<dots> = x - pipe_xs"
    by (simp add: x algebra_simps)
  finally show ?thesis .
qed

lemma pipe_arg_2: "pipe_arg 2 \<le> 283 / 1000000"
proof -
  have "(44 / 100)\<^sup>2 \<le> (196133 / 2000000 * 2 :: real)"
    by (simp add: power2_eq_square)
  then have "sqrt ((44 / 100)\<^sup>2) \<le> sqrt (196133 / 2000000 * 2)"
    by (subst real_sqrt_le_iff)
  then have d: "44 / 100 \<le> pipe_dw 2"
    by (simp add: pipe_dw_def GRAVITY_def)
  then have "(28363 / 5000000000) / pipe_dw 2 \<le> (28363 / 5000000000) / (44 / 100)"
    by (intro divide_left_mono) simp_all
  then show ?thesis
    by (simp add: pipe_arg_eq)
qed

lemma pipe_oth_2: "7 / 10 \<le> pipe_oth 2"
proof -
  let ?L = "log 10 (pipe_arg 2)"
  have pos: "0 < pipe_arg 2"
    using pipe_arg_gt [of 2] by simp
  have "?L \<le> log 10 (283 / 1000000)"
    using pos pipe_arg_2 by (subst log_le_cancel_iff) simp_all
  also have "\<dots> \<le> - (real 7 / real (Suc 1))"
    by (rule log_le_ratI) (simp_all add: power_divide)
  finally have "7 / 2 \<le> \<bar>?L\<bar>" by simp
  then have "(7 / 2)\<^sup>2 \<le> ?L\<^sup>2"
    by (subst abs_le_square_iff [symmetric]) simp
  then have sq: "49 / 4 \<le> ?L\<^sup>2" by (simp add: power2_eq_square)
  have "7 / 10 \<le> 3000000000000000000087987 / 10 ^ 26 * (49 / 4) * (2::real)"
    by simp
  also have "\<dots> \<le> 3000000000000000000087987 / 10 ^ 26 * ?L\<^sup>2 * 2"
    using sq by (intro mult_right_mono mult_left_mono) simp_all
  also have "\<dots> = pipe_oth 2"
    by (rule pipe_oth_eq [symmetric]) simp
  finally show ?thesis .
qed

lemma pipe0_simps:
  "uiStartCellX pipe0 = 1" "uiStartCellY pipe0 = 1" "uiEndCellX pipe0 = 2"
  "uiEndCellY pipe0 = 1" "length_pipe pipe0 = Fin 100" "roughness pipe0 = Fin (1 / 2)"
  "lossCoefficients pipe0 = Fin (3 / 2)" "diameter pipe0 = Fin (1 / 2)"
  "invertStart pipe0 = Fin (- 9999)" "invertEnd pipe0 = Fin (- 9999)"
  by (simp_all add: pipe0_def)

lemma pipeStep_next:
  assumes "1 \<le> uiIterations st" and "dFrictionHeadLossEst st = Fin x"
    and "dOtherHeadTerms st = Fin (pipe_oth x)" and "pipe_xs < x"
  shows "pipeStep pipe0 (Fin (1 / 3710)) (Fin (1 / 2)) (Fin 2) st =
         \<lparr> uiIterations = uiIterations st + 1,
           dFrictionHeadLossEst = Fin (x - pipe_oth x),
           dVelocity = Fin (pipe_vel (x - pipe_oth x)),
           dOtherHeadTerms = Fin (pipe_oth (x - pipe_oth x)),
           dError = Fin (2 - (x - pipe_oth x) - pipe_oth (x - pipe_oth x)) \<rparr>"
proof -
  define y where "y = x - pipe_oth x"
  have y: "pipe_xs < y" using pipe_oth_gap [OF assms(4)] by (simp add: y_def)
  have y0: "0 < y" using y pipe_xs_pos by linarith
  have lt: "pipe_oth x < x" using y0 by (simp add: y_def)
  have n: "\<not> uiIterations st = 0" using assms(1) by simp
  have g: "0 < GRAVITY" by (simp add: GRAVITY_def)
  have f1: "sqrt (GRAVITY * y / 100) = pipe_dw y"
    by (simp add: pipe_dw_def)
  have f2: "1 / 3710 + 28363 / (5000000000 * pipe_dw y) = pipe_arg y"
    by (simp add: pipe_arg_def)
  have pa: "0 < pipe_arg y"
    using pipe_arg_gt [OF y0] by simp
  have v: "- (2 * log 10 (pipe_arg y) * pipe_dw y) = pipe_vel y"
    by (simp add: pipe_vel_def)
  have o: "3 * (pipe_vel y * pipe_vel y * GRAVITY2_R) = pipe_oth y * 2"
    by (simp add: pipe_oth_def)
  have dw: "0 < pipe_dw y" by (rule pipe_dw_pos [OF y0])
  have gy: "\<not> GRAVITY * y < 0"
    using g y0 by (simp add: not_less)
  show ?thesis
    unfolding y_def [symmetric]
    using y0 lt n g pa dw gy
    by (simp add: pipeStep_def Let_def assms(2,3) dgt_def dsub_def pipe0_simps
          y_def [symmetric] f1 f2 v o)
qed




lemma pipeStep_first_value:
  assumes "uiIterations st = 0" and "0 < y"
  shows "pipeStep pipe0 (Fin (1 / 3710)) (Fin (1 / 2)) (Fin y) st =
         \<lparr> uiIterations = 1, dFrictionHeadLossEst = Fin y, dVelocity = Fin (pipe_vel y),
           dOtherHeadTerms = Fin (pipe_oth y), dError = Fin (y - y - pipe_oth y) \<rparr>"
proof -
  have g: "0 < GRAVITY" by (simp add: GRAVITY_def)
  have f1: "sqrt (GRAVITY * y / 100) = pipe_dw y"
    by (simp add: pipe_dw_def)
  have f2: "1 / 3710 + 28363 / (5000000000 * pipe_dw y) = pipe_arg y"
    by (simp add: pipe_arg_def)
  have pa: "0 < pipe_arg y"
    using pipe_arg_gt [OF assms(2)] by simp
  have v: "- (2 * log 10 (pipe_arg y) * pipe_dw y) = pipe_vel y"
    by (simp add: pipe_vel_def)
  have o: "3 * (pipe_vel y * pipe_vel y * GRAVITY2_R) = pipe_oth y * 2"
    by (simp add: pipe_oth_def)
  have dw: "0 < pipe_dw y" by (rule pipe_dw_pos [OF assms(2)])
  have gy: "\<not> GRAVITY * y < 0"
    using g assms(2) by (simp add: not_less)
  show ?thesis
    using g pa dw gy assms(2)
    by (simp add: pipeStep_def Let_def assms(1) dgt_def dsub_def pipe0_simps f1 f2 v o)
qed

lemma pipeStep_first:
  "pipeStep pipe0 (Fin (1 / 3710)) (Fin (1 / 2)) (Fin 2) pipe_start =
     \<lparr> uiIterations = 1, dFrictionHeadLossEst = Fin 2, dVelocity = Fin (pipe_vel 2),
       dOtherHeadTerms = Fin (pipe_oth 2), dError = Fin (2 - 2 - pipe_oth 2) \<rparr>"
  by (rule pipeStep_first_value) (simp_all add: pipe_start_def)

lemma pipe_err_large:
  assumes "pipe_xs < y" and "y = 2 \<or> y \<le> 143 / 100"
  shows "1 / 10000 < \<bar>2 - y - pipe_oth y\<bar>"
  using assms(2)
proof
  assume "y = 2"
  then show ?thesis using pipe_oth_2 by simp
next
  assume "y \<le> 143 / 100"
  then show ?thesis using pipe_oth_le(2) [OF assms(1)] by linarith
qed

lemma pipe_next_range:
  assumes "pipe_xs < x" and "x = 2 \<or> x \<le> 143 / 100"
  shows "pipe_xs < x - pipe_oth x" and "x - pipe_oth x \<le> 143 / 100"
proof -
  show "pipe_xs < x - pipe_oth x"
    using pipe_oth_gap [OF assms(1)] by simp
  show "x - pipe_oth x \<le> 143 / 100"
    using assms(2)
  proof
    assume "x = 2"
    then show ?thesis using pipe_oth_2 by simp
  next
    assume "x \<le> 143 / 100"
    then show ?thesis using pipe_oth_le(1) [OF assms(1)] by linarith
  qed
qed

lemma pipeLoop_exhausts:
  assumes "k = 5000 - uiIterations st"
    and "1 \<le> uiIterations st" and "uiIterations st \<le> 5000"
    and "dFrictionHeadLossEst st = Fin x" and "dOtherHeadTerms st = Fin (pipe_oth x)"
    and "dError st = Fin (2 - x - pipe_oth x)" and "dVelocity st = Fin v"
    and "pipe_xs < x" and "x = 2 \<or> x \<le> 143 / 100"
  shows "\<exists>y w. uiIterations (pipeLoop pipe0 (Fin (1 / 3710)) (Fin (1 / 2)) (Fin 2) st) = 5000 \<and>
           dVelocity (pipeLoop pipe0 (Fin (1 / 3710)) (Fin (1 / 2)) (Fin 2) st) = Fin w \<and>
           dError (pipeLoop pipe0 (Fin (1 / 3710)) (Fin (1 / 2)) (Fin 2) st) =
             Fin (2 - y - pipe_oth y) \<and>
           pipe_xs < y \<and> (y = 2 \<or> y \<le> 143 / 100)"
  using assms
proof (induction k arbitrary: st x v)
  case 0
  then have n: "uiIterations st = 5000" by simp
  have "pipeLoop pipe0 (Fin (1 / 3710)) (Fin (1 / 2)) (Fin 2) st = st"
    by (subst pipeLoop.simps) (simp add: n maxIterations_def)
  then show ?case
    using 0 n by auto
next
  case (Suc k)
  let ?st = "pipeStep pipe0 (Fin (1 / 3710)) (Fin (1 / 2)) (Fin 2) st"
  let ?y = "x - pipe_oth x"
  have n: "uiIterations st < 5000" using Suc.prems(1) by simp
  have big: "dgt (dfabs (dError st)) (Fin (1 / 10000))"
    using pipe_err_large [OF Suc.prems(8,9)] by (simp add: Suc.prems(6) dgt_def)
  have loop: "pipeLoop pipe0 (Fin (1 / 3710)) (Fin (1 / 2)) (Fin 2) st =
              pipeLoop pipe0 (Fin (1 / 3710)) (Fin (1 / 2)) (Fin 2) ?st"
    by (subst pipeLoop.simps) (simp add: n big maxIterations_def)
  have st: "?st = \<lparr> uiIterations = uiIterations st + 1,
                     dFrictionHeadLossEst = Fin ?y,
                     dVelocity = Fin (pipe_vel ?y),
                     dOtherHeadTerms = Fin (pipe_oth ?y),
                     dError = Fin (2 - ?y - pipe_oth ?y) \<rparr>"
    by (rule pipeStep_next [OF Suc.prems(2,4,5,8)])
  have "\<exists>y w. uiIterations (pipeLoop pipe0 (Fin (1 / 3710)) (Fin (1 / 2)) (Fin 2) ?st) = 5000 \<and>
           dVelocity (pipeLoop pipe0 (Fin (1 / 3710)) (Fin (1 / 2)) (Fin 2) ?st) = Fin w \<and>
           dError (pipeLoop pipe0 (Fin (1 / 3710)) (Fin (1 / 2)) (Fin 2) ?st) =
             Fin (2 - y - pipe_oth y) \<and>
           pipe_xs < y \<and> (y = 2 \<or> y \<le> 143 / 100)"
  proof (rule Suc.IH [where x = ?y and v = "pipe_vel ?y"])
    show "k = 5000 - uiIterations ?st"
      using Suc.prems(1) by (simp add: st)
    show "1 \<le> uiIterations ?st" by (simp add: st)
    show "uiIterations ?st \<le> 5000" using n by (simp add: st)
    show "dFrictionHeadLossEst ?st = Fin ?y" by (simp add: st)
    show "dOtherHeadTerms ?st = Fin (pipe_oth ?y)" by (simp add: st)
    show "dError ?st = Fin (2 - ?y - pipe_oth ?y)" by (simp add: st)
    show "dVelocity ?st = Fin (pipe_vel ?y)" by (simp add: st)
    show "pipe_xs < ?y" by (rule pipe_next_range(1) [OF Suc.prems(8,9)])
    show "?y = 2 \<or> ?y \<le> 143 / 100"
      using pipe_next_range(2) [OF Suc.prems(8,9)] by simp
  qed
  then show ?case
    by (simp only: loop)
qed

lemma pipe_end_unconverged:
  "\<exists>y w. uiIterations pipe_end = 5000 \<and> dVelocity pipe_end = Fin w \<and>
         dError pipe_end = Fin (2 - y - pipe_oth y) \<and>
         pipe_xs < y \<and> (y = 2 \<or> y \<le> 143 / 100)"
proof -
  let ?st = "pipeStep pipe0 (Fin (1 / 3710)) (Fin (1 / 2)) (Fin 2) pipe_start"
  have "pipe_end = pipeLoop pipe0 (Fin (1 / 3710)) (Fin (1 / 2)) (Fin 2) ?st"
    unfolding pipe_end_def
    by (subst pipeLoop.simps) (simp add: pipe_start_def maxIterations_def dgt_def)
  moreover have "pipe_xs < 2" by (simp add: pipe_xs_def)
  ultimately show ?thesis
    using pipeLoop_exhausts [of 4999 ?st 2 "pipe_vel 2"]
    by (simp add: pipeStep_first)
qed

lemma pipeCommit_finite:
  assumes "dVelocity st = Fin w"
  shows "vx (fst (pipeCommit build0 (Fin 1) (Fin (1 / 2)) st tank_full (Fin 0)
                    cell_dry (Fin 0))) \<noteq> NaN \<and>
         vx (snd (pipeCommit build0 (Fin 1) (Fin (1 / 2)) st tank_full (Fin 0)
                    cell_dry (Fin 0))) \<noteq> NaN"
  by (simp add: pipeCommit_def Let_def assms tank_full_def cell_dry_def dmax_def dsub_def
        build0_def)

lemma bdy_SimplePipe_tank:
  "bdy_SimplePipe build0 pipe0 (Fin 1) cells_tank (\<lambda>i. Fin 0) =
     (case pipeCommit build0 (Fin 1) (Fin (1 / 2)) pipe_end tank_full (Fin 0) cell_dry (Fin 0)
      of (s, e) \<Rightarrow> (cells_tank (5 := s)) (6 := e))"
  by (simp add: bdy_SimplePipe_def Let_def pipe0_simps cells_tank_def getCellID_def
        build0_def tank_full_def cell_dry_def dsub_def dmax_def dgt_def pipe_end_def
        pipe_start_def)

text \<open>
  Claim C1 does not hold of the kernel. What \<^verbatim>\<open>bdy_SimplePipe\<close> stores after the loop
  does not depend on the pass count or on the head-balance error: the NaN assigned on
  failure is overwritten by the discharge computed from the velocity. For the pipe
  \<open>pipe0\<close> under a head of 2 m the loop stops at the limit of 5000 passes with an error
  above 0.0001, and the kernel stores water levels that are not NaN in both cells.
\<close>

theorem bdy_SimplePipe_drops_poison:
  "pipeCommit b dLocalTimestep dWettedDiameter (st \<lparr> uiIterations := n, dError := e \<rparr>)
     pStartData dStartBed pEndData dEndBed =
   pipeCommit b dLocalTimestep dWettedDiameter st pStartData dStartBed pEndData dEndBed \<and>
   uiIterations pipe_end = maxIterations \<and>
   dgt (dfabs (dError pipe_end)) (Fin (1 / 10000)) \<and>
   bdy_SimplePipe build0 pipe0 (Fin 1) cells_tank (\<lambda>i. Fin 0) =
     (case pipeCommit build0 (Fin 1) (Fin (1 / 2)) pipe_end tank_full (Fin 0) cell_dry (Fin 0)
      of (s, e) \<Rightarrow> (cells_tank (5 := s)) (6 := e)) \<and>
   vx (bdy_SimplePipe build0 pipe0 (Fin 1) cells_tank (\<lambda>i. Fin 0) 5) \<noteq> NaN \<and>
   vx (bdy_SimplePipe build0 pipe0 (Fin 1) cells_tank (\<lambda>i. Fin 0) 6) \<noteq> NaN"
proof -
  obtain y w where n: "uiIterations pipe_end = 5000" and v: "dVelocity pipe_end = Fin w"
    and e: "dError pipe_end = Fin (2 - y - pipe_oth y)"
    and y: "pipe_xs < y" "y = 2 \<or> y \<le> 143 / 100"
    using pipe_end_unconverged by blast
  have c1: "pipeCommit b dLocalTimestep dWettedDiameter
              (st \<lparr> uiIterations := n, dError := e \<rparr>)
              pStartData dStartBed pEndData dEndBed =
            pipeCommit b dLocalTimestep dWettedDiameter st
              pStartData dStartBed pEndData dEndBed"
    for b dLocalTimestep dWettedDiameter st n e pStartData dStartBed pEndData dEndBed
    by (simp add: pipeCommit_def)
  have c2: "uiIterations pipe_end = maxIterations"
    by (simp add: n maxIterations_def)
  have c3: "dgt (dfabs (dError pipe_end)) (Fin (1 / 10000))"
    using pipe_err_large [OF y] by (simp add: e dgt_def)
  obtain s t where st:
    "pipeCommit build0 (Fin 1) (Fin (1 / 2)) pipe_end tank_full (Fin 0) cell_dry (Fin 0) =
       (s, t)"
    by (cases "pipeCommit build0 (Fin 1) (Fin (1 / 2)) pipe_end tank_full (Fin 0)
                 cell_dry (Fin 0)")
  have fin: "vx s \<noteq> NaN" "vx t \<noteq> NaN"
    using pipeCommit_finite [OF v] by (simp_all add: st)
  have c4: "bdy_SimplePipe build0 pipe0 (Fin 1) cells_tank (\<lambda>i. Fin 0) =
              (cells_tank (5 := s)) (6 := t)"
    by (simp add: bdy_SimplePipe_tank st)
  show ?thesis
    using c1 c2 c3 fin by (simp add: c4 st)
qed
section \<open>Verification: rounding to a double\<close>

lemma rhe_cases: "rhe y = \<lfloor>y\<rfloor> \<or> rhe y = \<lfloor>y\<rfloor> + 1"
  by (simp add: rhe_def Let_def)

lemma rhe_int [simp]: "rhe (of_int k) = k"
  by (simp add: rhe_def Let_def)

lemma rhe_mono:
  assumes "y \<le> z"
  shows "rhe y \<le> rhe z"
proof (cases "\<lfloor>y\<rfloor> = \<lfloor>z\<rfloor>")
  case True
  then show ?thesis
    using assms by (auto simp: rhe_def Let_def)
next
  case False
  then have "\<lfloor>y\<rfloor> < \<lfloor>z\<rfloor>"
    using floor_mono [OF assms] by linarith
  moreover have "rhe y \<le> \<lfloor>y\<rfloor> + 1" using rhe_cases [of y] by linarith
  moreover have "\<lfloor>z\<rfloor> \<le> rhe z" using rhe_cases [of z] by linarith
  ultimately show ?thesis by linarith
qed

lemma rhe_near: "\<bar>of_int (rhe y) - y\<bar> \<le> 1 / 2"
  unfolding rhe_def Let_def by (auto simp: abs_le_iff)

lemma rhe_neg: "rhe (- y) = - rhe y"
proof (cases "y = of_int \<lfloor>y\<rfloor>")
  case True
  then obtain k where "y = of_int k" ..
  then have "- y = of_int (- k)" by simp
  then show ?thesis unfolding \<open>y = of_int k\<close> by (simp only: rhe_int)
next
  case False
  then have f: "\<lfloor>- y\<rfloor> = - \<lfloor>y\<rfloor> - 1"
    by (simp add: floor_minus ceiling_altdef)
  show ?thesis
    unfolding rhe_def Let_def f
    by (auto simp: algebra_simps)
qed

lemma floorlog2_real:
  assumes "0 < n"
  shows "0 < floorlog 2 n" and "(2::real) ^ (floorlog 2 n - 1) \<le> real n"
    and "real n + 1 \<le> 2 ^ floorlog 2 n"
proof -
  from floorlog_bounds [OF assms, of 2] have
    b: "2 ^ (floorlog 2 n - 1) \<le> n" "n < 2 ^ floorlog 2 n"
    by simp_all
  show "0 < floorlog 2 n"
    using assms by (simp add: floorlog_eq_zero_iff [of 2 n] neq0_conv [symmetric] del: neq0_conv)
  have "real (2 ^ (floorlog 2 n - 1)) \<le> real n"
    using b(1) by (rule iffD2 [OF of_nat_le_iff])
  then show "(2::real) ^ (floorlog 2 n - 1) \<le> real n" by simp
  have "Suc n \<le> 2 ^ floorlog 2 n" using b(2) by simp
  then have "real (Suc n) \<le> real (2 ^ floorlog 2 n)"
    by (rule iffD2 [OF of_nat_le_iff])
  then show "real n + 1 \<le> 2 ^ floorlog 2 n" by simp
qed

lemma powi2_nat: "(2::real) powi (int k) = 2 ^ k"
  by (simp add: power_int_def)

lemma powi2_neg_nat: "(2::real) powi (- int k) = 1 / 2 ^ k"
  by (simp add: power_int_minus field_simps powi2_nat del: power_int_of_nat)

lemma powi2_pred: "0 < k \<Longrightarrow> (2::real) powi (int k - 1) = 2 ^ (k - 1)"
  using powi2_nat [of "k - 1"] by (simp add: of_nat_diff)

lemma powi2_neg_succ: "0 < k \<Longrightarrow> (2::real) powi (- int k + 1) = 1 / 2 ^ (k - 1)"
  using powi2_neg_nat [of "k - 1"] by (simp add: of_nat_diff)

lemma ilog2_bounds_ge1:
  assumes "1 \<le> x"
  shows "2 powi ilog2 x \<le> x \<and> x < 2 powi (ilog2 x + 1)"
proof -
  define n where "n = nat \<lfloor>x\<rfloor>"
  have n: "0 < n" using assms by (simp add: n_def)
  have nx: "real n \<le> x \<and> x < real n + 1"
    using assms unfolding n_def by (simp add: of_nat_nat)
  have e: "ilog2 x = int (floorlog 2 n) - 1"
    unfolding ilog2_def n_def using assms by simp
  have "2 ^ (floorlog 2 n - 1) \<le> x"
    using floorlog2_real(2) [OF n] nx by linarith
  moreover have "x < 2 ^ floorlog 2 n"
    using floorlog2_real(3) [OF n] nx by linarith
  ultimately show ?thesis
    unfolding e by (simp add: powi2_pred [OF floorlog2_real(1) [OF n]] powi2_nat
      del: power_int_of_nat)
qed

lemma ilog2_bounds_lt1:
  assumes "0 < x" and "x < 1"
  shows "2 powi ilog2 x \<le> x \<and> x < 2 powi (ilog2 x + 1)"
proof -
  define y where "y = 1 / x"
  define n where "n = nat (\<lceil>y\<rceil> - 1)"
  have y: "1 < y" using assms by (simp add: y_def)
  then have c: "2 \<le> \<lceil>y\<rceil>" by linarith
  then have n: "0 < n" by (simp add: n_def)
  have ny: "real n < y \<and> y \<le> real n + 1"
    using c unfolding n_def by (simp add: of_nat_nat) linarith
  have e: "ilog2 x = - int (floorlog 2 n)"
    unfolding ilog2_def n_def y_def using assms by simp
  have x: "x = 1 / y" using assms by (simp add: y_def)
  have lo: "2 ^ (floorlog 2 n - 1) < y"
    using floorlog2_real(2) [OF n] ny by linarith
  have up: "y \<le> 2 ^ floorlog 2 n"
    using floorlog2_real(3) [OF n] ny by linarith
  have "1 / 2 ^ floorlog 2 n \<le> 1 / y"
    using up y by (intro divide_left_mono) simp_all
  moreover have "1 / y < 1 / 2 ^ (floorlog 2 n - 1)"
    using lo y by (intro divide_strict_left_mono) simp_all
  ultimately have "2 powi (- int (floorlog 2 n)) \<le> 1 / y \<and>
                   1 / y < 2 powi (- int (floorlog 2 n) + 1)"
    by (simp only: powi2_neg_nat powi2_neg_succ [OF floorlog2_real(1) [OF n]])
  then show ?thesis
    unfolding e by (simp only: x [symmetric])
qed

lemma ilog2_bounds:
  assumes "0 < x"
  shows "2 powi ilog2 x \<le> x" and "x < 2 powi (ilog2 x + 1)"
  using ilog2_bounds_ge1 [of x] ilog2_bounds_lt1 [of x] assms
  by (cases "1 \<le> x"; simp)+

lemma powi2_less_imp: "(2::real) powi a < 2 powi b \<Longrightarrow> a < b"
  using power_int_increasing [of b a "2::real"] by (cases "a < b") simp_all

lemma ilog2_unique:
  assumes "2 powi e \<le> x" and "x < 2 powi (e + 1)"
  shows "ilog2 x = e"
proof -
  have x: "0 < x"
    using assms(1) by (rule less_le_trans [rotated]) simp
  have "2 powi e < (2::real) powi (ilog2 x + 1)"
    using assms(1) ilog2_bounds(2) [OF x] by linarith
  then have a: "e < ilog2 x + 1"
    by (rule powi2_less_imp)
  have "2 powi ilog2 x < (2::real) powi (e + 1)"
    using assms(2) ilog2_bounds(1) [OF x] by linarith
  then have b: "ilog2 x < e + 1"
    by (rule powi2_less_imp)
  from a b show ?thesis by linarith
qed

lemma ilog2_mono:
  assumes "0 < x" and "x \<le> y"
  shows "ilog2 x \<le> ilog2 y"
proof -
  have y: "0 < y" using assms by linarith
  have "2 powi ilog2 x < (2::real) powi (ilog2 y + 1)"
    using ilog2_bounds(1) [OF assms(1)] ilog2_bounds(2) [OF y] assms(2) by linarith
  then have "ilog2 x < ilog2 y + 1"
    by (rule powi2_less_imp)
  then show ?thesis by linarith
qed

lemma ulp_pos: "0 < ulp x"
  by (simp add: ulp_def zero_less_power_int)

lemma ulp_minus: "ulp (- x) = ulp x"
  by (simp add: ulp_def expo_def)

lemma rnd_minus: "rnd (- x) = - rnd x"
  by (simp add: rnd_def ulp_minus rhe_neg)

lemma rnd_0: "rnd 0 = 0"
  using rhe_int [of 0] by (simp add: rnd_def del: rhe_int)

lemma rnd_nonneg:
  assumes "0 \<le> x"
  shows "0 \<le> rnd x"
proof -
  have "0 \<le> x / ulp x" using assms ulp_pos [of x] by simp
  from rhe_mono [OF this] have "0 \<le> rhe (x / ulp x)"
    using rhe_int [of 0] by (simp del: rhe_int)
  then show ?thesis
    using ulp_pos [of x] by (simp add: rnd_def)
qed

lemma rnd_nonpos: "x \<le> 0 \<Longrightarrow> rnd x \<le> 0"
  using rnd_nonneg [of "- x"] by (simp add: rnd_minus)

lemma expo_upper:
  assumes "0 < x"
  shows "x < 2 powi (expo x + 1)"
proof -
  have "x < 2 powi (ilog2 x + 1)" by (rule ilog2_bounds(2) [OF assms])
  also have "\<dots> \<le> 2 powi (expo x + 1)"
    using assms by (intro power_int_increasing) (simp_all add: expo_def)
  finally show ?thesis .
qed

lemma expo_lower:
  assumes "0 < x" and "- 1022 < expo x"
  shows "2 powi expo x \<le> x"
proof -
  have "expo x = ilog2 x" using assms by (simp add: expo_def max_def split: if_splits)
  then show ?thesis using ilog2_bounds(1) [OF assms(1)] by simp
qed

lemma expo_mono:
  assumes "0 < x" and "x \<le> y"
  shows "expo x \<le> expo y"
proof -
  have "ilog2 x \<le> ilog2 y" by (rule ilog2_mono [OF assms])
  then show ?thesis using assms by (simp add: expo_def)
qed

lemma powi2_split: "(2::real) powi (e + 1) = 2 ^ 53 * 2 powi (e - 52)"
proof -
  have "e + 1 = 53 + (e - 52)" by simp
  then have "(2::real) powi (e + 1) = 2 powi (53 + (e - 52))" by (rule arg_cong)
  also have "\<dots> = 2 powi 53 * 2 powi (e - 52)"
    by (rule power_int_add) simp
  finally show ?thesis by simp
qed

lemma powi2_split': "(2::real) powi e = 2 ^ 52 * 2 powi (e - 52)"
proof -
  have "e = 52 + (e - 52)" by simp
  then have "(2::real) powi e = 2 powi (52 + (e - 52))" by (rule arg_cong)
  also have "\<dots> = 2 powi 52 * 2 powi (e - 52)"
    by (rule power_int_add) simp
  finally show ?thesis by simp
qed

lemma rnd_upper:
  assumes "0 < x"
  shows "rnd x \<le> 2 powi (expo x + 1)"
proof -
  have "x < 2 ^ 53 * ulp x"
    using expo_upper [OF assms] by (simp only: powi2_split ulp_def)
  then have "x / ulp x \<le> 2 ^ 53"
    using ulp_pos [of x] by (simp add: pos_divide_le_eq)
  then have "x / ulp x \<le> of_int (2 ^ 53)" by simp
  from rhe_mono [OF this] have "rhe (x / ulp x) \<le> 2 ^ 53"
    by (simp only: rhe_int)
  then have "real_of_int (rhe (x / ulp x)) \<le> 2 ^ 53"
    by (metis of_int_le_iff of_int_numeral of_int_power)
  then have "rnd x \<le> 2 ^ 53 * ulp x"
    unfolding rnd_def using ulp_pos [of x] by (intro mult_right_mono) simp_all
  then show ?thesis
    by (simp add: powi2_split ulp_def)
qed

lemma rnd_lower:
  assumes "0 < x" and "- 1022 < expo x"
  shows "2 powi expo x \<le> rnd x"
proof -
  have "2 powi expo x \<le> x" by (rule expo_lower [OF assms])
  then have "2 ^ 52 * ulp x \<le> x"
    by (simp only: powi2_split' [of "expo x"] ulp_def)
  then have "2 ^ 52 \<le> x / ulp x"
    using ulp_pos [of x] by (simp add: pos_le_divide_eq)
  then have "of_int (2 ^ 52) \<le> x / ulp x" by simp
  from rhe_mono [OF this] have "2 ^ 52 \<le> rhe (x / ulp x)"
    by (simp only: rhe_int)
  then have "2 ^ 52 \<le> real_of_int (rhe (x / ulp x))"
    by (metis of_int_le_iff of_int_numeral of_int_power)
  then have "2 ^ 52 * ulp x \<le> rnd x"
    unfolding rnd_def using ulp_pos [of x] by (intro mult_right_mono) simp_all
  then show ?thesis
    by (simp add: powi2_split' [of "expo x"] ulp_def)
qed

lemma rnd_mono_pos:
  assumes "0 < x" and "x \<le> y"
  shows "rnd x \<le> rnd y"
proof (cases "expo x = expo y")
  case True
  then have u: "ulp x = ulp y" by (simp add: ulp_def)
  have "x / ulp y \<le> y / ulp y"
    using assms(2) ulp_pos [of y] by (simp add: divide_right_mono)
  from rhe_mono [OF this] show ?thesis
    unfolding rnd_def u using ulp_pos [of y] by (intro mult_right_mono) simp_all
next
  case False
  have y: "0 < y" using assms by linarith
  have lt: "expo x < expo y" using expo_mono [OF assms] False by linarith
  have "- 1022 \<le> expo x" by (simp add: expo_def)
  then have n: "- 1022 < expo y" using lt by linarith
  have "rnd x \<le> 2 powi (expo x + 1)" by (rule rnd_upper [OF assms(1)])
  also have "\<dots> \<le> 2 powi expo y"
    using lt by (intro power_int_increasing) simp_all
  also have "\<dots> \<le> rnd y" by (rule rnd_lower [OF y n])
  finally show ?thesis .
qed

lemma rnd_mono:
  assumes "x \<le> y"
  shows "rnd x \<le> rnd y"
proof -
  consider "0 < x" | "y < 0" | "x \<le> 0" "0 \<le> y" by linarith
  then show ?thesis
  proof cases
    case 1
    then show ?thesis by (rule rnd_mono_pos [OF _ assms])
  next
    case 2
    then have "rnd (- y) \<le> rnd (- x)"
      using assms by (intro rnd_mono_pos) simp_all
    then show ?thesis by (simp add: rnd_minus)
  next
    case 3
    then show ?thesis using rnd_nonneg [of y] rnd_nonpos [of x] by linarith
  qed
qed

lemma cut_mono: "a \<le> b \<Longrightarrow> dle (cut a) (cut b)"
  by (simp add: cut_def)

lemma round64_mono: "x \<le> y \<Longrightarrow> dle (round64 x) (round64 y)"
  unfolding round64_def by (intro cut_mono rnd_mono)

lemma round64_0: "round64 0 = Fin 0"
  by (simp add: round64_def rnd_0 cut_def)

lemma round64_not_NaN: "round64 x \<noteq> NaN"
  by (simp add: round64_def cut_def)


lemma round64_nonpos: "x \<le> 0 \<Longrightarrow> dle (round64 x) (Fin 0)"
  using round64_mono [of x 0] by (simp add: round64_0)

lemma expo_eq:
  assumes "2 powi e \<le> \<bar>x\<bar>" and "\<bar>x\<bar> < 2 powi (e + 1)" and "- 1022 \<le> e"
  shows "expo x = e"
  using ilog2_unique [OF assms(1,2)] assms(3) by (simp add: expo_def)

lemma expo_subnormal:
  assumes "\<bar>x\<bar> < 2 powi (- 1022)" and "x \<noteq> 0"
  shows "expo x = - 1022"
proof -
  have x: "0 < \<bar>x\<bar>" using assms(2) by simp
  have "2 powi ilog2 \<bar>x\<bar> < (2::real) powi (- 1022)"
    using ilog2_bounds(1) [OF x] assms(1) by linarith
  then have "ilog2 \<bar>x\<bar> < - 1022" by (rule powi2_less_imp)
  then show ?thesis by (simp add: expo_def)
qed

lemma round64_eval:
  assumes "2 powi e \<le> \<bar>x\<bar>" and "\<bar>x\<bar> < 2 powi (e + 1)" and "- 1022 \<le> e"
    and "rhe (x / 2 powi (e - 52)) = m" and "v = of_int m * 2 powi (e - 52)"
    and "\<bar>v\<bar> < 2 ^ 1024"
  shows "round64 x = Fin v"
proof -
  have "rnd x = v"
    by (simp add: rnd_def ulp_def expo_eq [OF assms(1-3)] assms(4,5))
  then show ?thesis
    using assms(6) by (simp add: round64_def cut_def abs_less_iff)
qed

lemma round64_eval_subnormal:
  assumes "\<bar>x\<bar> < 2 powi (- 1022)" and "x \<noteq> 0"
    and "rhe (x / 2 powi (- 1074)) = m" and "v = of_int m * 2 powi (- 1074)"
    and "\<bar>v\<bar> < 2 ^ 1024"
  shows "round64 x = Fin v"
proof -
  have "ulp x = 2 powi (- 1074)"
    unfolding ulp_def expo_subnormal [OF assms(1,2)]
    by (rule arg_cong [where f = "\<lambda>k. 2 powi k"]) simp
  then have "rnd x = v"
    unfolding rnd_def by (simp only: assms(3,4))
  then show ?thesis
    using assms(5) by (simp add: round64_def cut_def abs_less_iff)
qed

section \<open>Verification: the timestep controller in double arithmetic\<close>








lemma nonneg_cases: "dle (Fin 0) x \<Longrightarrow> (\<exists>a. x = Fin a \<and> 0 \<le> a) \<or> x = PInf"
  by (cases x) simp_all





lemma rd_not_NaN: "x \<noteq> NaN \<Longrightarrow> rd x \<noteq> NaN"
  by (cases x) (simp_all add: round64_not_NaN)







lemma fl_sub_PInf: "fl_sub PInf (Fin a) = PInf"
  by (simp add: fl_sub_def dsub_def)

lemma fl_add_PInf: "dle (Fin 0) x \<Longrightarrow> fl_add PInf x = PInf"
  by (cases x) (simp_all add: fl_add_def)











































































section \<open>Verification: point-implicit friction in double arithmetic\<close>

text \<open>
  The roundings of \<^verbatim>\<open>implicitFriction\<close> for the cell \<open>cell_shear\<close>, a Manning coefficient
  of \<open>2\<^sup>2\<^sup>4\<close> and a timestep of 5 s. The depth is 1, where \<^verbatim>\<open>pow\<close> returns 1 exactly, and
  the sum of the squared discharges rounds to 1, whose square root is exact.
\<close>

lemma frc_1: "round64 1 = Fin 1"
  by (rule round64_eval [where e = 0 and m = 4503599627370496])
     (simp_all add: rhe_def Let_def)

lemma frc_2: "round64 GRAVITY = Fin (5520653160719109 / 562949953421312)"
  by (simp add: GRAVITY_def,
      rule round64_eval [where e = 3 and m = 5520653160719109])
     (simp_all add: rhe_def Let_def)

lemma frc_3:
  "round64 (1 / 100000000000000) =
   Fin (6338253001141147 / 633825300114114700748351602688)"
  by (rule round64_eval [where e = "- 47" and m = 6338253001141147])
     (simp_all add: rhe_def Let_def)

lemma frc_4: "fl_mul (Fin 1) (Fin 1) = Fin 1"
  by (simp add: fl_mul_def,
      rule round64_eval [where e = 0 and m = 4503599627370496])
     (simp_all add: rhe_def Let_def)

lemma frc_5:
  "fl_mul (Fin (7737125245533627 / 77371252455336267181195264))
     (Fin (7737125245533627 / 77371252455336267181195264)) =
   Fin (1661534994731145 / 166153499473114484112975882535043072)"
  by (simp add: fl_mul_def,
      rule round64_eval [where e = "- 67" and m = 6646139978924580])
     (simp_all add: rhe_def Let_def)

lemma frc_6:
  "fl_add (Fin 1) (Fin (1661534994731145 / 166153499473114484112975882535043072)) =
   Fin 1"
  by (simp add: fl_add_def,
      rule round64_eval [where e = 0 and m = 4503599627370496])
     (simp_all add: rhe_def Let_def)

lemma frc_7: "fl_sqrt (Fin 1) = Fin 1"
  by (simp add: fl_sqrt_def frc_1)

lemma frc_8: "fl_div (Fin 1) (Fin 1) = Fin 1"
  by (simp add: fl_div_def,
      rule round64_eval [where e = 0 and m = 4503599627370496])
     (simp_all add: rhe_def Let_def)

lemma frc_9: "fl_div (Fin 1) (Fin 3) = Fin (6004799503160661 / 18014398509481984)"
  by (simp add: fl_div_def,
      rule round64_eval [where e = "- 2" and m = 6004799503160661])
     (simp_all add: rhe_def Let_def)

lemma frc_10: "rd (dpow (Fin 1) (6004799503160661 / 18014398509481984)) = Fin 1"
  by (simp add: dpow_def frc_1)

lemma frc_11:
  "fl_mul (Fin (5520653160719109 / 562949953421312)) (Fin 16777216) =
   Fin (5520653160719109 / 33554432)"
  by (simp add: fl_mul_def,
      rule round64_eval [where e = 27 and m = 5520653160719109])
     (simp_all add: rhe_def Let_def)

lemma frc_12:
  "fl_mul (Fin (5520653160719109 / 33554432)) (Fin 16777216) =
   Fin (5520653160719109 / 2)"
  by (simp add: fl_mul_def,
      rule round64_eval [where e = 51 and m = 5520653160719109])
     (simp_all add: rhe_def Let_def)

lemma frc_13: "fl_div (Fin (5520653160719109 / 2)) (Fin 1) = Fin (5520653160719109 / 2)"
  by (simp add: fl_div_def,
      rule round64_eval [where e = 51 and m = 5520653160719109])
     (simp_all add: rhe_def Let_def)

lemma frc_14: "fl_mul (Fin (- (5520653160719109 / 2))) (Fin 1) = Fin (- (5520653160719109 / 2))"
  by (simp add: fl_mul_def,
      rule round64_eval [where e = 51 and m = "- 5520653160719109"])
     (simp_all add: rhe_def Let_def)

lemma frc_15:
  "fl_mul (Fin (- (5520653160719109 / 2))) (Fin (7737125245533627 / 77371252455336267181195264)) =
   Fin (- (4742204955569521 / 17179869184))"
  by (simp add: fl_mul_def,
      rule round64_eval [where e = 18 and m = "- 4742204955569521"])
     (simp_all add: rhe_def Let_def)

lemma frc_16:
  "fl_mul (Fin (- (4742204955569521 / 17179869184))) (Fin 1) =
   Fin (- (4742204955569521 / 17179869184))"
  by (simp add: fl_mul_def,
      rule round64_eval [where e = 18 and m = "- 4742204955569521"])
     (simp_all add: rhe_def Let_def)

lemma frc_17: "fl_mul (Fin (5520653160719109 / 2)) (Fin 1) = Fin (5520653160719109 / 2)"
  by (simp add: fl_mul_def,
      rule round64_eval [where e = 51 and m = 5520653160719109])
     (simp_all add: rhe_def Let_def)

lemma frc_18: "fl_mul (Fin 5) (Fin (5520653160719109 / 2)) = Fin 13801632901797772"
  by (simp add: fl_mul_def,
      rule round64_eval [where e = 53 and m = 6900816450898886])
     (simp_all add: rhe_def Let_def)

lemma frc_19: "fl_mul (Fin 2) (Fin 1) = Fin 2"
  by (simp add: fl_mul_def,
      rule round64_eval [where e = 1 and m = 4503599627370496])
     (simp_all add: rhe_def Let_def)

lemma frc_20:
  "fl_add (Fin 2) (Fin (1661534994731145 / 166153499473114484112975882535043072)) =
   Fin 2"
  by (simp add: fl_add_def,
      rule round64_eval [where e = 1 and m = 4503599627370496])
     (simp_all add: rhe_def Let_def)

lemma frc_21: "fl_mul (Fin 13801632901797772) (Fin 2) = Fin 27603265803595544"
  by (simp add: fl_mul_def,
      rule round64_eval [where e = 54 and m = 6900816450898886])
     (simp_all add: rhe_def Let_def)

lemma frc_22: "fl_mul (Fin 27603265803595544) (Fin 1) = Fin 27603265803595544"
  by (simp add: fl_mul_def,
      rule round64_eval [where e = 54 and m = 6900816450898886])
     (simp_all add: rhe_def Let_def)

lemma frc_23: "fl_add (Fin 1) (Fin 27603265803595544) = Fin 27603265803595544"
  by (simp add: fl_add_def,
      rule round64_eval [where e = 54 and m = 6900816450898886])
     (simp_all add: rhe_def Let_def)

lemma frc_24:
  "fl_mul (Fin 2) (Fin (1661534994731145 / 166153499473114484112975882535043072)) =
   Fin (1661534994731145 / 83076749736557242056487941267521536)"
  by (simp add: fl_mul_def,
      rule round64_eval [where e = "- 66" and m = 6646139978924580])
     (simp_all add: rhe_def Let_def)

lemma frc_25:
  "fl_add (Fin 1) (Fin (1661534994731145 / 83076749736557242056487941267521536)) =
   Fin 1"
  by (simp add: fl_add_def,
      rule round64_eval [where e = 0 and m = 4503599627370496])
     (simp_all add: rhe_def Let_def)

lemma frc_26: "fl_mul (Fin 13801632901797772) (Fin 1) = Fin 13801632901797772"
  by (simp add: fl_mul_def,
      rule round64_eval [where e = 53 and m = 6900816450898886])
     (simp_all add: rhe_def Let_def)

lemma frc_27: "fl_add (Fin 1) (Fin 13801632901797772) = Fin 13801632901797772"
  by (simp add: fl_add_def,
      rule round64_eval [where e = 53 and m = 6900816450898886])
     (simp_all add: rhe_def Let_def)

lemma frc_28:
  "fl_div (Fin (- (5520653160719109 / 2))) (Fin 27603265803595544) =
   Fin (- (3602879701896397 / 36028797018963968))"
  by (simp add: fl_div_def,
      rule round64_eval [where e = "- 4" and m = "- 7205759403792794"])
     (simp_all add: rhe_def Let_def)

lemma frc_29:
  "fl_div (Fin (- (4742204955569521 / 17179869184))) (Fin 13801632901797772) =
   Fin (- (3094850098213451 / 154742504910672534362390528))"
  by (simp add: fl_div_def,
      rule round64_eval [where e = "- 36" and m = "- 6189700196426902"])
     (simp_all add: rhe_def Let_def)

lemma frc_30: "fl_div (Fin 1) (Fin 5) = Fin (3602879701896397 / 18014398509481984)"
  by (simp add: fl_div_def,
      rule round64_eval [where e = "- 3" and m = 7205759403792794])
     (simp_all add: rhe_def Let_def)

lemma frc_31:
  "fl_mul (Fin (- 1)) (Fin (3602879701896397 / 18014398509481984)) =
   Fin (- (3602879701896397 / 18014398509481984))"
  by (simp add: fl_mul_def,
      rule round64_eval [where e = "- 3" and m = "- 7205759403792794"])
     (simp_all add: rhe_def Let_def)

lemma frc_32:
  "fl_mul (Fin (- (7737125245533627 / 77371252455336267181195264)))
     (Fin (3602879701896397 / 18014398509481984)) =
   Fin (- (3094850098213451 / 154742504910672534362390528))"
  by (simp add: fl_mul_def,
      rule round64_eval [where e = "- 36" and m = "- 6189700196426902"])
     (simp_all add: rhe_def Let_def)

lemma frc_33:
  "fl_mul (Fin 5) (Fin (- (3602879701896397 / 36028797018963968))) =
   Fin (- (1 / 2))"
  by (simp add: fl_mul_def,
      rule round64_eval [where e = "- 1" and m = "- 4503599627370496"])
     (simp_all add: rhe_def Let_def)

lemma frc_34: "fl_add (Fin 1) (Fin (- (1 / 2))) = Fin (1 / 2)"
  by (simp add: fl_add_def,
      rule round64_eval [where e = "- 1" and m = 4503599627370496])
     (simp_all add: rhe_def Let_def)

lemma frc_35:
  "fl_mul (Fin 5) (Fin (- (3094850098213451 / 154742504910672534362390528))) =
   Fin (- (1934281311383407 / 19342813113834066795298816))"
  by (simp add: fl_mul_def,
      rule round64_eval [where e = "- 34" and m = "- 7737125245533628"])
     (simp_all add: rhe_def Let_def)

lemma frc_36:
  "fl_add (Fin (7737125245533627 / 77371252455336267181195264))
     (Fin (- (1934281311383407 / 19342813113834066795298816))) =
   Fin (- (1 / 77371252455336267181195264))"
  by (simp add: fl_add_def,
      rule round64_eval [where e = "- 86" and m = "- 4503599627370496"])
     (simp_all add: rhe_def Let_def)

lemmas frc_facts =
  frc_1 frc_2 frc_3 frc_4 frc_5 frc_6 frc_7 frc_8 frc_9 frc_10 frc_11 frc_12 frc_13 frc_14
  frc_15 frc_16 frc_17 frc_18 frc_19 frc_20 frc_21 frc_22 frc_23 frc_24 frc_25 frc_26 frc_27
  frc_28 frc_29 frc_30 frc_31 frc_32 frc_33 frc_34 frc_35 frc_36

text \<open>
  Claim C3 does not hold of the function in double arithmetic. The clamp limits the
  friction term to \<^verbatim>\<open>-q * (1.0 / dt)\<close> and the update adds \<^verbatim>\<open>dt\<close> times this term to
  \<^verbatim>\<open>q\<close>; rounded, \<^verbatim>\<open>dt * (q * (1.0 / dt))\<close> is not \<^verbatim>\<open>q\<close>. For a cell 1 m deep with
  \<open>q\<^sub>x = 1\<close>, \<open>q\<^sub>y = 10\<^sup>-\<^sup>1\<^sup>0\<close>, a Manning coefficient of \<open>2\<^sup>2\<^sup>4\<close> and \<open>\<Delta>t = 5\<close> the function
  returns \<open>q\<^sub>y = -2\<^sup>-\<^sup>8\<^sup>6\<close>: the positive component has become negative.
\<close>

theorem implicitFriction_fl_reverses:
  "implicitFriction_fl build0 cell_shear (Fin 0) (Fin 1) (Fin 16777216) (Fin 5) =
     cell_shear \<lparr> vz := Fin (1 / 2), vw := Fin (- (1 / 77371252455336267181195264)) \<rparr> \<and>
   dlt (Fin 0) (vw cell_shear) \<and>
   dlt (vw (implicitFriction_fl build0 cell_shear (Fin 0) (Fin 1) (Fin 16777216) (Fin 5)))
       (Fin 0)"
  by (simp add: implicitFriction_fl_def Let_def cell_shear_def build0_simps dfmax_def
        dfmin_def dge_def frc_facts)

end
